theory Spec2Isabelle
  imports Complex_Main "HOL-Library.Log_Nat"
begin

section \<open>IEEE binary64 values and the two operations the node uses\<close>

text \<open>
  Every scalar of \<^verbatim>\<open>pose_fusion_node.cpp\<close> is a C++ \<^verbatim>\<open>double\<close>, and the only
  operations the node applies to one are \<^verbatim>\<open>*\<close> and \<^verbatim>\<open>+\<close>. A double is modelled by
  its value: a finite number is a sign bit and a magnitude (so that \<open>+0\<close> and \<open>-0\<close>
  differ), an infinity is a sign bit, and all NaNs are one value. \<open>DFinite True q\<close> is
  the negative number \<open>- q\<close>. Each operation computes the exact rational result and
  rounds it once, to nearest with ties to even, on 53 significant bits with the
  exponent range of binary64. A blend \<open>w1 * a + w2 * b\<close> is evaluated as it is written:
  two products and one sum, each rounded (no contraction into a fused multiply-add).
\<close>

datatype double = DFinite bool rat | DInf bool | DNaN

definition pow2 :: "int \<Rightarrow> rat" where
  "pow2 e = (if 0 \<le> e then 2 ^ nat e else 1 / 2 ^ nat (- e))"

text \<open>\<open>ilog2 q\<close> is \<open>\<lfloor>log\<^sub>2 q\<rfloor>\<close> for a positive rational \<open>q\<close>.\<close>

definition ilog2 :: "rat \<Rightarrow> int" where
  "ilog2 q = (let k = bitlen (fst (quotient_of q)) - bitlen (snd (quotient_of q))
              in if pow2 k \<le> q then k else k - 1)"

definition round_half_even :: "rat \<Rightarrow> int" where
  "round_half_even t =
     (let f = \<lfloor>t\<rfloor>; r = t - of_int f
      in if r < 1 / 2 then f else if 1 / 2 < r then f + 1
         else if even f then f else f + 1)"

text \<open>
  Rounding of an exact magnitude \<open>q \<ge> 0\<close> with sign \<open>s\<close>. The unit in the last place
  is \<open>2\<^sup>e\<close> with \<open>e = max (\<lfloor>log\<^sub>2 q\<rfloor> - 52) (-1074)\<close> (the second bound is the
  subnormal range); a result of \<open>2\<^sup>1\<^sup>0\<^sup>2\<^sup>4\<close> or more overflows to infinity.
\<close>

definition round_double :: "bool \<Rightarrow> rat \<Rightarrow> double" where
  "round_double s q =
     (if q = 0 then DFinite s 0
      else let e = max (ilog2 q - 52) (- 1074);
               r = of_int (round_half_even (q / pow2 e)) * pow2 e
           in if pow2 1024 \<le> r then DInf s else DFinite s r)"

definition signed_value :: "bool \<Rightarrow> rat \<Rightarrow> rat" where
  "signed_value s q = (if s then - q else q)"

fun dmul :: "double \<Rightarrow> double \<Rightarrow> double" where
  "dmul DNaN _ = DNaN"
| "dmul _ DNaN = DNaN"
| "dmul (DInf s) (DInf t) = DInf (s \<noteq> t)"
| "dmul (DInf s) (DFinite t q) = (if q = 0 then DNaN else DInf (s \<noteq> t))"
| "dmul (DFinite s p) (DInf t) = (if p = 0 then DNaN else DInf (s \<noteq> t))"
| "dmul (DFinite s p) (DFinite t q) = round_double (s \<noteq> t) (p * q)"

fun dadd :: "double \<Rightarrow> double \<Rightarrow> double" where
  "dadd DNaN _ = DNaN"
| "dadd _ DNaN = DNaN"
| "dadd (DInf s) (DInf t) = (if s = t then DInf s else DNaN)"
| "dadd (DInf s) (DFinite t q) = DInf s"
| "dadd (DFinite s p) (DInf t) = DInf t"
| "dadd (DFinite s p) (DFinite t q) =
     (let v = signed_value s p + signed_value t q
      in if v = 0 then DFinite (s \<and> t) 0 else round_double (v < 0) \<bar>v\<bar>)"

text \<open>
  The source's \<^verbatim>\<open>*\<close> and \<^verbatim>\<open>+\<close> on doubles are written \<open>*\<close> and \<open>+\<close>; the literal
  \<^verbatim>\<open>0.0\<close> is \<open>0\<close>, that is \<open>+0\<close>.
\<close>

instantiation double :: "{zero, one, plus, times}"
begin

definition zero_double :: double where
  "zero_double = DFinite False 0"

definition one_double :: double where
  "one_double = DFinite False 1"

definition plus_double :: "double \<Rightarrow> double \<Rightarrow> double" where
  "plus_double = dadd"

definition times_double :: "double \<Rightarrow> double \<Rightarrow> double" where
  "times_double = dmul"

instance ..

end

text \<open>The literal \<^verbatim>\<open>0.5\<close>.\<close>

definition half :: double where
  "half = DFinite False (1 / 2)"

text \<open>
  A value of the datatype is a double when rounding leaves it unchanged; it is finite
  when it is neither an infinity nor a NaN. Two doubles are the same number when they
  are identical or both are zeros (of either sign).
\<close>

definition is_double :: "double \<Rightarrow> bool" where
  "is_double d =
     (case d of DFinite s q \<Rightarrow> 0 \<le> q \<and> round_double s q = DFinite s q | _ \<Rightarrow> True)"

definition is_finite :: "double \<Rightarrow> bool" where
  "is_finite d = (case d of DFinite s q \<Rightarrow> True | _ \<Rightarrow> False)"

definition is_zero :: "double \<Rightarrow> bool" where
  "is_zero d = (case d of DFinite s q \<Rightarrow> q = 0 | _ \<Rightarrow> False)"

definition same_number :: "double \<Rightarrow> double \<Rightarrow> bool" where
  "same_number a b = (a = b \<or> (is_zero a \<and> is_zero b))"

section \<open>Messages\<close>

text \<open>
  The message types of \<^verbatim>\<open>builtin_interfaces\<close>, \<^verbatim>\<open>std_msgs\<close> and
  \<^verbatim>\<open>geometry_msgs\<close> that the node reads and writes, field by field. Field names carry
  a prefix of their message, since a record field is a constant of the theory. A
  covariance is \<^verbatim>\<open>std::array<double, 36>\<close>, modelled as a list; a stamp is its
  seconds and nanoseconds.
\<close>

record Time =
  time_sec :: int
  time_nanosec :: nat

record Header =
  hdr_stamp :: Time
  hdr_frame_id :: string

record Point =
  point_x :: double
  point_y :: double
  point_z :: double

record Quaternion =
  quat_x :: double
  quat_y :: double
  quat_z :: double
  quat_w :: double

record Vector3 =
  vec_x :: double
  vec_y :: double
  vec_z :: double

record Pose =
  pose_position :: Point
  pose_orientation :: Quaternion

record PoseWithCovariance =
  pwc_pose :: Pose
  pwc_covariance :: "double list"

record PoseWithCovarianceStamped =
  pcs_header :: Header
  pcs_pose :: PoseWithCovariance

record Twist =
  twist_linear :: Vector3
  twist_angular :: Vector3

record TwistWithCovariance =
  twc_twist :: Twist
  twc_covariance :: "double list"

record TwistWithCovarianceStamped =
  tcs_header :: Header
  tcs_twist :: TwistWithCovariance

record Transform =
  tf_translation :: Vector3
  tf_rotation :: Quaternion

record TransformStamped =
  ts_header :: Header
  ts_child_frame_id :: string
  ts_transform :: Transform

section \<open>The node\<close>

text \<open>
  The member variables of \<^verbatim>\<open>PoseFusionNode\<close> that the callbacks read and write. A
  \<^verbatim>\<open>SharedPtr\<close> that is null is \<open>None\<close>. The constructor leaves the four message
  pointers null and the four weights at \<^verbatim>\<open>0.5\<close>.
\<close>

record PoseFusionNode =
  last_lidar_msg :: "PoseWithCovarianceStamped option"
  last_gnss_msg :: "PoseWithCovarianceStamped option"
  last_ekf_twist_msg :: "TwistWithCovarianceStamped option"
  last_filter_twist_msg :: "TwistWithCovarianceStamped option"
  lidar_weight :: double
  gnss_weight :: double
  ekf_twist_weight :: double
  filter_twist_weight :: double

definition PoseFusionNode_init :: PoseFusionNode where
  "PoseFusionNode_init =
     \<lparr> last_lidar_msg = None, last_gnss_msg = None,
       last_ekf_twist_msg = None, last_filter_twist_msg = None,
       lidar_weight = half, gnss_weight = half,
       ekf_twist_weight = half, filter_twist_weight = half \<rparr>"

text \<open>
  What the node sends out: \<^verbatim>\<open>final_pose_pub_->publish\<close>,
  \<^verbatim>\<open>fused_twist_pub_->publish\<close> and \<^verbatim>\<open>tf_broadcaster_->sendTransform\<close>, in the
  order of the calls.
\<close>

datatype emission =
    PublishFinalPose PoseWithCovarianceStamped
  | PublishFusedTwist TwistWithCovarianceStamped
  | SendTransform TransformStamped

text \<open>
  The covariance loop of \<^verbatim>\<open>fusePoses\<close> and \<^verbatim>\<open>fuseTwists\<close>:
  \<^verbatim>\<open>for (size_t i = 0; i < 36; ++i) out[i] = w1 * a[i] + w2 * b[i];\<close>
\<close>

function covariance_loop ::
  "double \<Rightarrow> double \<Rightarrow> double list \<Rightarrow> double list \<Rightarrow> nat \<Rightarrow> double list \<Rightarrow> double list" where
  "covariance_loop w1 w2 a b i out =
     (if i < 36
      then covariance_loop w1 w2 a b (Suc i) (out[i := w1 * a ! i + w2 * b ! i])
      else out)"
  by pat_completeness auto
termination
  by (relation "measure (\<lambda>(w1, w2, a, b, i, out). 36 - i)") auto

declare covariance_loop.simps [simp del]

text \<open>\<^verbatim>\<open>broadcastTransform\<close>: the local \<^verbatim>\<open>transformStamped\<close>, then the broadcast.\<close>

definition transformStamped :: "PoseWithCovarianceStamped \<Rightarrow> TransformStamped" where
  "transformStamped fused_pose =
     \<lparr> ts_header = \<lparr> hdr_stamp = hdr_stamp (pcs_header fused_pose), hdr_frame_id = ''map'' \<rparr>,
       ts_child_frame_id = ''base_link'',
       ts_transform =
         \<lparr> tf_translation =
             \<lparr> vec_x = point_x (pose_position (pwc_pose (pcs_pose fused_pose))),
               vec_y = point_y (pose_position (pwc_pose (pcs_pose fused_pose))),
               vec_z = point_z (pose_position (pwc_pose (pcs_pose fused_pose))) \<rparr>,
           tf_rotation =
             \<lparr> quat_x = quat_x (pose_orientation (pwc_pose (pcs_pose fused_pose))),
               quat_y = quat_y (pose_orientation (pwc_pose (pcs_pose fused_pose))),
               quat_z = quat_z (pose_orientation (pwc_pose (pcs_pose fused_pose))),
               quat_w = quat_w (pose_orientation (pwc_pose (pcs_pose fused_pose))) \<rparr> \<rparr> \<rparr>"

definition broadcastTransform :: "PoseWithCovarianceStamped \<Rightarrow> emission list" where
  "broadcastTransform fused_pose = [SendTransform (transformStamped fused_pose)]"

text \<open>
  \<^verbatim>\<open>fusePoses\<close>. The local \<^verbatim>\<open>fused_pose\<close> is built from the two messages the
  pointers refer to, the two weights and the clock reading \<^verbatim>\<open>this->now()\<close>, which
  is the argument \<open>now\<close>. The function dereferences both pointers: with a null one it
  has no result (\<open>None\<close>).
\<close>

definition fused_pose ::
  "Time \<Rightarrow> double \<Rightarrow> double \<Rightarrow> PoseWithCovarianceStamped \<Rightarrow> PoseWithCovarianceStamped
     \<Rightarrow> PoseWithCovarianceStamped" where
  "fused_pose now lidar_w gnss_w lidar gnss =
     (let lidar_pos = pose_position (pwc_pose (pcs_pose lidar));
          gnss_pos = pose_position (pwc_pose (pcs_pose gnss))
      in \<lparr> pcs_header = \<lparr> hdr_stamp = now, hdr_frame_id = ''map'' \<rparr>,
           pcs_pose =
             \<lparr> pwc_pose =
                 \<lparr> pose_position =
                     \<lparr> point_x = lidar_w * point_x lidar_pos + gnss_w * point_x gnss_pos,
                       point_y = lidar_w * point_y lidar_pos + gnss_w * point_y gnss_pos,
                       point_z = lidar_w * point_z lidar_pos + gnss_w * point_z gnss_pos \<rparr>,
                   pose_orientation = pose_orientation (pwc_pose (pcs_pose lidar)) \<rparr>,
               pwc_covariance =
                 covariance_loop lidar_w gnss_w
                   (pwc_covariance (pcs_pose lidar)) (pwc_covariance (pcs_pose gnss))
                   0 (replicate 36 0) \<rparr> \<rparr>)"

definition fusePoses :: "Time \<Rightarrow> PoseFusionNode \<Rightarrow> emission list option" where
  "fusePoses now s =
     (case last_lidar_msg s of
        None \<Rightarrow> None
      | Some lidar \<Rightarrow>
          (case last_gnss_msg s of
             None \<Rightarrow> None
           | Some gnss \<Rightarrow>
               (let fp = fused_pose now (lidar_weight s) (gnss_weight s) lidar gnss
                in Some (PublishFinalPose fp # broadcastTransform fp))))"

text \<open>\<^verbatim>\<open>fuseTwists\<close>, in the same way.\<close>

definition fused_twist ::
  "Time \<Rightarrow> double \<Rightarrow> double \<Rightarrow> TwistWithCovarianceStamped \<Rightarrow> TwistWithCovarianceStamped
     \<Rightarrow> TwistWithCovarianceStamped" where
  "fused_twist now ekf_w filter_w ekf filt =
     \<lparr> tcs_header = \<lparr> hdr_stamp = now, hdr_frame_id = ''map'' \<rparr>,
       tcs_twist =
         \<lparr> twc_twist =
             \<lparr> twist_linear = \<lparr> vec_x = 0, vec_y = 0, vec_z = 0 \<rparr>,
               twist_angular =
                 \<lparr> vec_x = 0, vec_y = 0,
                   vec_z = ekf_w * vec_z (twist_angular (twc_twist (tcs_twist ekf)))
                           + filter_w * vec_z (twist_angular (twc_twist (tcs_twist filt))) \<rparr> \<rparr>,
           twc_covariance =
             covariance_loop ekf_w filter_w
               (twc_covariance (tcs_twist ekf)) (twc_covariance (tcs_twist filt))
               0 (replicate 36 0) \<rparr> \<rparr>"

definition fuseTwists :: "Time \<Rightarrow> PoseFusionNode \<Rightarrow> emission list option" where
  "fuseTwists now s =
     (case last_ekf_twist_msg s of
        None \<Rightarrow> None
      | Some ekf \<Rightarrow>
          (case last_filter_twist_msg s of
             None \<Rightarrow> None
           | Some filt \<Rightarrow>
               Some [PublishFusedTwist
                       (fused_twist now (ekf_twist_weight s) (filter_twist_weight s) ekf filt)]))"

text \<open>
  The four subscription callbacks. Each stores the message, tests the other pointer of
  its pair and fuses when it is set. The result is the node after the call and what was
  sent, or \<open>None\<close> if a null pointer was dereferenced.
\<close>

definition lidarPoseCallback ::
  "Time \<Rightarrow> PoseWithCovarianceStamped \<Rightarrow> PoseFusionNode
     \<Rightarrow> (PoseFusionNode \<times> emission list) option" where
  "lidarPoseCallback now lidar_msg s =
     (let s' = s\<lparr>last_lidar_msg := Some lidar_msg\<rparr>
      in if last_gnss_msg s' \<noteq> None
         then map_option (Pair s') (fusePoses now s')
         else Some (s', []))"

definition gnssPoseCallback ::
  "Time \<Rightarrow> PoseWithCovarianceStamped \<Rightarrow> PoseFusionNode
     \<Rightarrow> (PoseFusionNode \<times> emission list) option" where
  "gnssPoseCallback now gnss_msg s =
     (let s' = s\<lparr>last_gnss_msg := Some gnss_msg\<rparr>
      in if last_lidar_msg s' \<noteq> None
         then map_option (Pair s') (fusePoses now s')
         else Some (s', []))"

definition ekfTwistCallback ::
  "Time \<Rightarrow> TwistWithCovarianceStamped \<Rightarrow> PoseFusionNode
     \<Rightarrow> (PoseFusionNode \<times> emission list) option" where
  "ekfTwistCallback now ekf_twist_msg s =
     (let s' = s\<lparr>last_ekf_twist_msg := Some ekf_twist_msg\<rparr>
      in if last_filter_twist_msg s' \<noteq> None
         then map_option (Pair s') (fuseTwists now s')
         else Some (s', []))"

definition filterTwistCallback ::
  "Time \<Rightarrow> TwistWithCovarianceStamped \<Rightarrow> PoseFusionNode
     \<Rightarrow> (PoseFusionNode \<times> emission list) option" where
  "filterTwistCallback now filter_twist_msg s =
     (let s' = s\<lparr>last_filter_twist_msg := Some filter_twist_msg\<rparr>
      in if last_ekf_twist_msg s' \<noteq> None
         then map_option (Pair s') (fuseTwists now s')
         else Some (s', []))"

text \<open>
  The subscriptions the constructor creates bind one topic to each callback, and
  \<^verbatim>\<open>rclcpp::spin\<close> runs the callbacks one at a time. An arrival is the message on its
  topic together with the clock reading during its callback.
\<close>

datatype arrival =
    LidarPose PoseWithCovarianceStamped
  | GnssPose PoseWithCovarianceStamped
  | EkfTwist TwistWithCovarianceStamped
  | FilterTwist TwistWithCovarianceStamped

fun dispatch :: "Time \<Rightarrow> arrival \<Rightarrow> PoseFusionNode \<Rightarrow> (PoseFusionNode \<times> emission list) option" where
  "dispatch now (LidarPose m) s = lidarPoseCallback now m s"
| "dispatch now (GnssPose m) s = gnssPoseCallback now m s"
| "dispatch now (EkfTwist m) s = ekfTwistCallback now m s"
| "dispatch now (FilterTwist m) s = filterTwistCallback now m s"

fun spin :: "PoseFusionNode \<Rightarrow> (Time \<times> arrival) list \<Rightarrow> (PoseFusionNode \<times> emission list) option" where
  "spin s [] = Some (s, [])"
| "spin s ((now, a) # rest) =
     (case dispatch now a s of
        None \<Rightarrow> None
      | Some (s', out) \<Rightarrow>
          (case spin s' rest of
             None \<Rightarrow> None
           | Some (s'', outs) \<Rightarrow> Some (s'', out @ outs)))"

section \<open>Reading a message, and sample inputs\<close>

text \<open>
  The access paths of the source, \<^verbatim>\<open>msg->pose.pose.position\<close> and the like.
\<close>

abbreviation position_of :: "PoseWithCovarianceStamped \<Rightarrow> Point" where
  "position_of m \<equiv> pose_position (pwc_pose (pcs_pose m))"

abbreviation orientation_of :: "PoseWithCovarianceStamped \<Rightarrow> Quaternion" where
  "orientation_of m \<equiv> pose_orientation (pwc_pose (pcs_pose m))"

abbreviation covariance_of :: "PoseWithCovarianceStamped \<Rightarrow> double list" where
  "covariance_of m \<equiv> pwc_covariance (pcs_pose m)"

abbreviation linear_of :: "TwistWithCovarianceStamped \<Rightarrow> Vector3" where
  "linear_of m \<equiv> twist_linear (twc_twist (tcs_twist m))"

abbreviation angular_of :: "TwistWithCovarianceStamped \<Rightarrow> Vector3" where
  "angular_of m \<equiv> twist_angular (twc_twist (tcs_twist m))"

abbreviation twist_covariance_of :: "TwistWithCovarianceStamped \<Rightarrow> double list" where
  "twist_covariance_of m \<equiv> twc_covariance (tcs_twist m)"

text \<open>
  Which emissions belong to the position pair (the fused pose and the transform derived
  from it) and which to the rate pair; which arrivals belong to which subscription.
\<close>

fun is_final_pose :: "emission \<Rightarrow> bool" where
  "is_final_pose (PublishFinalPose p) = True"
| "is_final_pose (PublishFusedTwist t) = False"
| "is_final_pose (SendTransform t) = False"

fun is_transform :: "emission \<Rightarrow> bool" where
  "is_transform (PublishFinalPose p) = False"
| "is_transform (PublishFusedTwist t) = False"
| "is_transform (SendTransform t) = True"

fun is_fused_twist :: "emission \<Rightarrow> bool" where
  "is_fused_twist (PublishFinalPose p) = False"
| "is_fused_twist (PublishFusedTwist t) = True"
| "is_fused_twist (SendTransform t) = False"

datatype topic = LidarPoseTopic | GnssPoseTopic | EkfTwistTopic | FilterTwistTopic

fun topic_of :: "Time \<times> arrival \<Rightarrow> topic" where
  "topic_of (now, LidarPose m) = LidarPoseTopic"
| "topic_of (now, GnssPose m) = GnssPoseTopic"
| "topic_of (now, EkfTwist m) = EkfTwistTopic"
| "topic_of (now, FilterTwist m) = FilterTwistTopic"

definition is_pose_arrival :: "Time \<times> arrival \<Rightarrow> bool" where
  "is_pose_arrival a = (topic_of a = LidarPoseTopic \<or> topic_of a = GnssPoseTopic)"

definition is_twist_arrival :: "Time \<times> arrival \<Rightarrow> bool" where
  "is_twist_arrival a = (topic_of a = EkfTwistTopic \<or> topic_of a = FilterTwistTopic)"

text \<open>
  The message that arrived last on a topic, in a list of arrivals in the order of
  arrival; \<open>None\<close> when nothing arrived on the topic.
\<close>

fun latest_lidar :: "(Time \<times> arrival) list \<Rightarrow> PoseWithCovarianceStamped option" where
  "latest_lidar [] = None"
| "latest_lidar ((now, LidarPose m) # rest) =
     (case latest_lidar rest of None \<Rightarrow> Some m | Some m' \<Rightarrow> Some m')"
| "latest_lidar ((now, a) # rest) = latest_lidar rest"

fun latest_gnss :: "(Time \<times> arrival) list \<Rightarrow> PoseWithCovarianceStamped option" where
  "latest_gnss [] = None"
| "latest_gnss ((now, GnssPose m) # rest) =
     (case latest_gnss rest of None \<Rightarrow> Some m | Some m' \<Rightarrow> Some m')"
| "latest_gnss ((now, a) # rest) = latest_gnss rest"

fun latest_ekf :: "(Time \<times> arrival) list \<Rightarrow> TwistWithCovarianceStamped option" where
  "latest_ekf [] = None"
| "latest_ekf ((now, EkfTwist m) # rest) =
     (case latest_ekf rest of None \<Rightarrow> Some m | Some m' \<Rightarrow> Some m')"
| "latest_ekf ((now, a) # rest) = latest_ekf rest"

fun latest_filter :: "(Time \<times> arrival) list \<Rightarrow> TwistWithCovarianceStamped option" where
  "latest_filter [] = None"
| "latest_filter ((now, FilterTwist m) # rest) =
     (case latest_filter rest of None \<Rightarrow> Some m | Some m' \<Rightarrow> Some m')"
| "latest_filter ((now, a) # rest) = latest_filter rest"

text \<open>Concrete messages and nodes, for the examples.\<close>

definition at_second :: "int \<Rightarrow> Time" where
  "at_second n = \<lparr> time_sec = n, time_nanosec = 0 \<rparr>"

definition pose_sample ::
  "Time \<Rightarrow> Point \<Rightarrow> Quaternion \<Rightarrow> double \<Rightarrow> PoseWithCovarianceStamped" where
  "pose_sample t p q c =
     \<lparr> pcs_header = \<lparr> hdr_stamp = t, hdr_frame_id = ''map'' \<rparr>,
       pcs_pose = \<lparr> pwc_pose = \<lparr> pose_position = p, pose_orientation = q \<rparr>,
                    pwc_covariance = replicate 36 c \<rparr> \<rparr>"

definition twist_sample ::
  "Time \<Rightarrow> Vector3 \<Rightarrow> Vector3 \<Rightarrow> double \<Rightarrow> TwistWithCovarianceStamped" where
  "twist_sample t l a c =
     \<lparr> tcs_header = \<lparr> hdr_stamp = t, hdr_frame_id = ''base_link'' \<rparr>,
       tcs_twist = \<lparr> twc_twist = \<lparr> twist_linear = l, twist_angular = a \<rparr>,
                     twc_covariance = replicate 36 c \<rparr> \<rparr>"

definition no_rotation :: Quaternion where
  "no_rotation = \<lparr> quat_x = 0, quat_y = 0, quat_z = 0, quat_w = 1 \<rparr>"

definition half_turn :: Quaternion where
  "half_turn = \<lparr> quat_x = 0, quat_y = 0, quat_z = 1, quat_w = 0 \<rparr>"

definition lidar_sample :: PoseWithCovarianceStamped where
  "lidar_sample =
     pose_sample (at_second 10) \<lparr> point_x = 1, point_y = 0, point_z = 0 \<rparr>
       no_rotation (DFinite False 2)"

definition gnss_sample :: PoseWithCovarianceStamped where
  "gnss_sample =
     pose_sample (at_second 3) \<lparr> point_x = DFinite False 3, point_y = 0, point_z = 0 \<rparr>
       half_turn (DFinite False 4)"

definition ekf_sample :: TwistWithCovarianceStamped where
  "ekf_sample =
     twist_sample (at_second 10) \<lparr> vec_x = 1, vec_y = 0, vec_z = 0 \<rparr>
       \<lparr> vec_x = 0, vec_y = 0, vec_z = 1 \<rparr> (DFinite False 2)"

definition filter_sample :: TwistWithCovarianceStamped where
  "filter_sample =
     twist_sample (at_second 3) \<lparr> vec_x = DFinite False 3, vec_y = 0, vec_z = 0 \<rparr>
       \<lparr> vec_x = 0, vec_y = 0, vec_z = DFinite False 3 \<rparr> (DFinite False 4)"

definition ready_node :: PoseFusionNode where
  "ready_node =
     PoseFusionNode_init
       \<lparr> last_lidar_msg := Some lidar_sample, last_gnss_msg := Some gnss_sample,
         last_ekf_twist_msg := Some ekf_sample, last_filter_twist_msg := Some filter_sample \<rparr>"

definition later_lidar_sample :: PoseWithCovarianceStamped where
  "later_lidar_sample =
     pose_sample (at_second 20) \<lparr> point_x = DFinite False 5, point_y = 0, point_z = 0 \<rparr>
       no_rotation (DFinite False 2)"

definition later_ekf_sample :: TwistWithCovarianceStamped where
  "later_ekf_sample =
     twist_sample (at_second 20) \<lparr> vec_x = 0, vec_y = 0, vec_z = 0 \<rparr>
       \<lparr> vec_x = 0, vec_y = 0, vec_z = DFinite False 5 \<rparr> (DFinite False 2)"

definition both_arrived :: "(Time \<times> arrival) list" where
  "both_arrived =
     [(at_second 1, LidarPose lidar_sample), (at_second 2, EkfTwist ekf_sample),
      (at_second 3, GnssPose gnss_sample), (at_second 4, FilterTwist filter_sample)]"

definition stale_then_fresh :: "(Time \<times> arrival) list" where
  "stale_then_fresh =
     [(at_second 1000, LidarPose later_lidar_sample), (at_second 1001, EkfTwist later_ekf_sample),
      (at_second 1002, LidarPose lidar_sample), (at_second 5000, GnssPose gnss_sample)]"

text \<open>
  Nodes whose weights are \<open>(1, 0)\<close> and \<open>(0, 1)\<close>, and a pair of messages with an
  infinite LiDAR x and a negative zero GNSS y.
\<close>

definition primary_only_node :: PoseFusionNode where
  "primary_only_node =
     ready_node\<lparr> lidar_weight := 1, gnss_weight := 0,
       ekf_twist_weight := 1, filter_twist_weight := 0 \<rparr>"

definition secondary_only_node :: PoseFusionNode where
  "secondary_only_node =
     ready_node\<lparr> lidar_weight := 0, gnss_weight := 1,
       ekf_twist_weight := 0, filter_twist_weight := 1 \<rparr>"

definition far_lidar_sample :: PoseWithCovarianceStamped where
  "far_lidar_sample =
     pose_sample (at_second 10)
       \<lparr> point_x = DInf False, point_y = DFinite False 5, point_z = 0 \<rparr>
       no_rotation (DFinite False 2)"

definition level_gnss_sample :: PoseWithCovarianceStamped where
  "level_gnss_sample =
     pose_sample (at_second 3)
       \<lparr> point_x = DFinite False 3, point_y = DFinite True 0, point_z = 0 \<rparr>
       half_turn (DFinite False 4)"

section \<open>Facts about the arithmetic\<close>

text \<open>
  A magnitude \<open>m * 2\<^sup>e\<close> with \<open>0 < m < 2\<^sup>5\<^sup>3\<close> and \<open>e \<ge> -1074\<close> that is below
  \<open>2\<^sup>1\<^sup>0\<^sup>2\<^sup>4\<close> is a binary64 number: rounding returns it unchanged.
\<close>

lemma pow2_powi: "pow2 e = 2 powi e"
  by (simp add: pow2_def power_int_def field_simps)

lemma pow2_pos: "0 < pow2 e"
  by (simp add: pow2_powi)

lemma pow2_add: "pow2 (a + b) = pow2 a * pow2 b"
  by (simp add: pow2_powi power_int_add)

lemma pow2_diff: "pow2 (a - b) = pow2 a / pow2 b"
  by (simp add: pow2_powi power_int_diff)

lemma pow2_mono: "a \<le> b \<Longrightarrow> pow2 a \<le> pow2 b"
  by (simp add: pow2_powi power_int_increasing)

lemma pow2_less_imp_less: "pow2 a < pow2 b \<Longrightarrow> a < b"
  using pow2_mono[of b a] by (cases "a < b") simp_all

lemma pow2_nat: "0 \<le> e \<Longrightarrow> pow2 e = of_int (2 ^ nat e)"
  by (simp add: pow2_def)

lemma round_half_even_of_int: "round_half_even (of_int m) = m"
  by (simp add: round_half_even_def Let_def)

lemma ilog2_lower:
  assumes "0 < q"
  shows "pow2 (ilog2 q) \<le> q"
proof -
  obtain n d where nd: "quotient_of q = (n, d)" by (cases "quotient_of q")
  have dpos: "0 < d" using nd by (rule quotient_of_denom_pos)
  have q: "q = of_int n / of_int d" using nd by (rule quotient_of_div)
  have npos: "0 < n" using assms dpos q by (simp add: zero_less_divide_iff)
  define k where "k = bitlen n - bitlen d"
  show ?thesis
  proof (cases "pow2 k \<le> q")
    case True
    then show ?thesis by (simp add: ilog2_def nd k_def Let_def)
  next
    case False
    have bn: "1 \<le> bitlen n" using npos bitlen_eq_zero_iff[of n] bitlen_nonneg[of n] by linarith
    have bd: "1 \<le> bitlen d" using dpos bitlen_eq_zero_iff[of d] bitlen_nonneg[of d] by linarith
    have "(2::int) ^ nat (bitlen n - 1) \<le> n" using bitlen_bounds[OF npos] by simp
    then have "(of_int ((2::int) ^ nat (bitlen n - 1)) :: rat) \<le> of_int n"
      by (simp only: of_int_le_iff)
    then have ln: "pow2 (bitlen n - 1) \<le> of_int n"
      using bn by (simp add: pow2_nat)
    have "d < 2 ^ nat (bitlen d)" using bitlen_bounds[OF dpos] by simp
    then have "(of_int d :: rat) < of_int ((2::int) ^ nat (bitlen d))"
      by (simp only: of_int_less_iff)
    then have ud: "of_int d < pow2 (bitlen d)"
      using bd by (simp add: pow2_nat)
    have "pow2 (k - 1) = pow2 (bitlen n - 1) / pow2 (bitlen d)"
      by (simp add: k_def pow2_diff[symmetric] algebra_simps)
    also have "\<dots> \<le> of_int n / pow2 (bitlen d)"
      using ln pow2_pos[of "bitlen d"] by (simp add: divide_right_mono)
    also have "\<dots> \<le> of_int n / of_int d"
      using ud npos dpos by (simp add: frac_le)
    finally have "pow2 (k - 1) \<le> q" using q by simp
    with False show ?thesis by (simp add: ilog2_def nd k_def Let_def)
  qed
qed

lemma round_double_exact:
  assumes m: "0 < m" "m < 2 ^ 53" and e: "- 1074 \<le> e"
    and q: "q = of_int m * pow2 e" and fin: "q < pow2 1024"
  shows "round_double s q = DFinite s q"
proof -
  have qpos: "0 < q" using m q pow2_pos[of e] by simp
  define E where "E = max (ilog2 q - 52) (- 1074)"
  have "(of_int m :: rat) < of_int (2 ^ 53)" using m(2) by (simp only: of_int_less_iff)
  then have "(of_int m :: rat) < pow2 53" by (simp add: pow2_def)
  then have "q < pow2 53 * pow2 e" using q pow2_pos[of e] by simp
  then have "q < pow2 (53 + e)" by (simp add: pow2_add)
  with ilog2_lower[OF qpos] have "pow2 (ilog2 q) < pow2 (53 + e)" by simp
  then have "ilog2 q < 53 + e" by (rule pow2_less_imp_less)
  then have Ee: "E \<le> e" using e by (simp add: E_def)
  have "q / pow2 E = of_int m * pow2 (e - E)" using q by (simp add: pow2_diff)
  also have "\<dots> = of_int (m * 2 ^ nat (e - E))" using Ee by (simp add: pow2_nat)
  finally have "round_half_even (q / pow2 E) = m * 2 ^ nat (e - E)"
    by (simp only: round_half_even_of_int)
  then have "of_int (round_half_even (q / pow2 E)) * pow2 E = of_int m * (pow2 (e - E) * pow2 E)"
    using Ee by (simp add: pow2_nat)
  also have "\<dots> = q" using q by (simp add: pow2_add[symmetric])
  finally have r: "of_int (round_half_even (q / pow2 E)) * pow2 E = q" .
  show ?thesis
    using qpos fin r unfolding round_double_def Let_def E_def[symmetric]
    by simp
qed



text \<open>
  \<open>ilog2\<close> is the floor of the binary logarithm, so rounding can be evaluated from the
  binade of its argument.
\<close>

lemma ilog2_upper:
  assumes "0 < q"
  shows "q < pow2 (ilog2 q + 1)"
proof -
  obtain n d where nd: "quotient_of q = (n, d)" by (cases "quotient_of q")
  have dpos: "0 < d" using nd by (rule quotient_of_denom_pos)
  have q: "q = of_int n / of_int d" using nd by (rule quotient_of_div)
  have npos: "0 < n" using assms dpos q by (simp add: zero_less_divide_iff)
  define k where "k = bitlen n - bitlen d"
  show ?thesis
  proof (cases "pow2 k \<le> q")
    case True
    have bn: "1 \<le> bitlen n" using npos bitlen_eq_zero_iff[of n] bitlen_nonneg[of n] by linarith
    have bd: "1 \<le> bitlen d" using dpos bitlen_eq_zero_iff[of d] bitlen_nonneg[of d] by linarith
    have "n < 2 ^ nat (bitlen n)" using bitlen_bounds[OF npos] by simp
    then have "(of_int n :: rat) < of_int ((2::int) ^ nat (bitlen n))"
      by (simp only: of_int_less_iff)
    then have un: "of_int n < pow2 (bitlen n)"
      using bn by (simp add: pow2_nat)
    have "(2::int) ^ nat (bitlen d - 1) \<le> d" using bitlen_bounds[OF dpos] by simp
    then have "(of_int ((2::int) ^ nat (bitlen d - 1)) :: rat) \<le> of_int d"
      by (simp only: of_int_le_iff)
    then have ld: "pow2 (bitlen d - 1) \<le> of_int d"
      using bd by (simp add: pow2_nat)
    have "q = of_int n / of_int d" by (rule q)
    also have "\<dots> \<le> of_int n / pow2 (bitlen d - 1)"
      using ld npos pow2_pos[of "bitlen d - 1"] by (simp add: frac_le)
    also have "\<dots> < pow2 (bitlen n) / pow2 (bitlen d - 1)"
      using un pow2_pos[of "bitlen d - 1"] by (simp add: divide_strict_right_mono)
    also have "\<dots> = pow2 (k + 1)"
      by (simp add: k_def pow2_diff[symmetric] algebra_simps)
    finally have "q < pow2 (k + 1)" .
    with True show ?thesis by (simp add: ilog2_def nd k_def Let_def)
  next
    case False
    then show ?thesis by (simp add: ilog2_def nd k_def Let_def)
  qed
qed

lemma ilog2_unique:
  assumes "pow2 k \<le> q" and "q < pow2 (k + 1)"
  shows "ilog2 q = k"
proof -
  have qpos: "0 < q" using assms(1) pow2_pos[of k] by simp
  have "pow2 (ilog2 q) < pow2 (k + 1)" using ilog2_lower[OF qpos] assms(2) by simp
  then have "ilog2 q < k + 1" by (rule pow2_less_imp_less)
  moreover have "pow2 k < pow2 (ilog2 q + 1)" using ilog2_upper[OF qpos] assms(1) by simp
  then have "k < ilog2 q + 1" by (rule pow2_less_imp_less)
  ultimately show ?thesis by simp
qed

lemma round_half_even_eval:
  assumes "of_int f \<le> t" and "t < of_int f + 1"
  shows "round_half_even t =
    (if t - of_int f < 1 / 2 then f else if 1 / 2 < t - of_int f then f + 1
     else if even f then f else f + 1)"
proof -
  have "\<lfloor>t\<rfloor> = f" using assms by (simp add: floor_unique)
  then show ?thesis by (simp add: round_half_even_def Let_def)
qed

lemma round_double_eval:
  assumes "pow2 k \<le> q" and "q < pow2 (k + 1)"
  shows "round_double s q =
    (let e = max (k - 52) (- 1074);
         r = of_int (round_half_even (q / pow2 e)) * pow2 e
     in if pow2 1024 \<le> r then DInf s else DFinite s r)"
proof -
  have "0 < q" using assms(1) pow2_pos[of k] by simp
  then show ?thesis by (simp add: round_double_def ilog2_unique[OF assms])
qed

text \<open>Rounding at work: \<open>2\<^sup>5\<^sup>3 + 1\<close> is a tie and goes to the even neighbour.\<close>

lemma tie_to_even: "DFinite False (2 ^ 53) + 1 = DFinite False (2 ^ 53)"
proof -
  have r: "round_half_even (9007199254740993 / 2) = 4503599627370496"
    by (subst round_half_even_eval[of 4503599627370496]) simp_all
  show ?thesis
    by (simp add: plus_double_def one_double_def signed_value_def
          round_double_eval[of 53] pow2_def r)
qed

text \<open>\<open>0.1 + 0.2\<close> is not the double nearest to \<open>0.3\<close>.\<close>

lemma tenth_plus_fifth:
  "DFinite False (3602879701896397 / 2 ^ 55) + DFinite False (3602879701896397 / 2 ^ 54)
     = DFinite False (5404319552844596 / 2 ^ 54)"
proof -
  have r: "round_half_even (10808639105689191 / 2) = 5404319552844596"
    by (subst round_half_even_eval[of 5404319552844595]) simp_all
  show ?thesis
    by (simp add: plus_double_def signed_value_def round_double_eval[of "- 2"] pow2_def r)
qed

text \<open>The largest double plus half a unit in its last place overflows.\<close>

lemma overflow_to_infinity:
  "DFinite False ((2 ^ 53 - 1) * 2 ^ 971) + DFinite False (2 ^ 970) = DInf False"
proof -
  have r: "round_half_even (18014398509481983 / 2) = 9007199254740992"
    by (subst round_half_even_eval[of 9007199254740991]) simp_all
  show ?thesis
    by (simp add: plus_double_def signed_value_def round_double_eval[of 1023] pow2_def r)
qed

text \<open>
  Multiplying by one keeps a double, multiplying a finite double by zero gives a zero,
  and adding a zero keeps the number (the sign of a zero may change).
\<close>

lemma is_double_zero: "is_double (DFinite s 0)"
  by (simp add: is_double_def round_double_def)

lemma is_double_exact:
  "0 < m \<Longrightarrow> m < 2 ^ 53 \<Longrightarrow> - 1074 \<le> e \<Longrightarrow> of_int m * pow2 e < pow2 1024
     \<Longrightarrow> is_double (DFinite s (of_int m * pow2 e))"
  using pow2_pos[of e] by (simp add: is_double_def round_double_exact[of m e])

lemma one_times: "is_double a \<Longrightarrow> 1 * a = a"
  by (cases a) (simp_all add: is_double_def times_double_def one_double_def)

lemma times_one: "is_double a \<Longrightarrow> a * 1 = a"
  by (cases a) (simp_all add: is_double_def times_double_def one_double_def)

lemma zero_times_finite: "is_finite b \<Longrightarrow> is_zero (0 * b)"
  by (cases b) (simp_all add: is_finite_def is_zero_def times_double_def zero_double_def round_double_def)

lemma add_zero_right: "is_double a \<Longrightarrow> is_zero z \<Longrightarrow> same_number (a + z) a"
  by (cases a; cases z)
     (auto simp: is_double_def is_zero_def same_number_def plus_double_def signed_value_def Let_def)

lemma add_zero_left: "is_double b \<Longrightarrow> is_zero z \<Longrightarrow> same_number (z + b) b"
  by (cases b; cases z)
     (auto simp: is_double_def is_zero_def same_number_def plus_double_def signed_value_def Let_def)

lemma blend_one_zero: "is_double a \<Longrightarrow> is_finite b \<Longrightarrow> same_number (1 * a + 0 * b) a"
  by (simp add: one_times zero_times_finite add_zero_right)

lemma blend_zero_one: "is_finite a \<Longrightarrow> is_double b \<Longrightarrow> same_number (0 * a + 1 * b) b"
  by (simp add: one_times zero_times_finite add_zero_left)

lemma covariance_loop_length: "length (covariance_loop w1 w2 a b i out) = length out"
  by (induction w1 w2 a b i out rule: covariance_loop.induct)
     (subst covariance_loop.simps, simp)

lemma covariance_loop_nth:
  "j < length out \<Longrightarrow>
   covariance_loop w1 w2 a b i out ! j =
     (if i \<le> j \<and> j < 36 then w1 * a ! j + w2 * b ! j else out ! j)"
proof (induction w1 w2 a b i out rule: covariance_loop.induct)
  case (1 w1 w2 a b i out)
  show ?case
  proof (cases "i < 36")
    case True
    let ?out = "out[i := w1 * a ! i + w2 * b ! i]"
    have step: "covariance_loop w1 w2 a b i out = covariance_loop w1 w2 a b (Suc i) ?out"
      using True by (subst covariance_loop.simps) simp
    have ih: "covariance_loop w1 w2 a b (Suc i) ?out ! j =
        (if Suc i \<le> j \<and> j < 36 then w1 * a ! j + w2 * b ! j else ?out ! j)"
      using 1 True by simp
    show ?thesis
    proof (cases "j = i")
      case True
      with ih step \<open>i < 36\<close> 1(2) show ?thesis by simp
    next
      case False
      then have "Suc i \<le> j \<longleftrightarrow> i \<le> j" by auto
      with ih step False show ?thesis by simp
    qed
  next
    case False
    then have "covariance_loop w1 w2 a b i out = out"
      by (subst covariance_loop.simps) simp
    with False show ?thesis by auto
  qed
qed

lemma covariance_loop_entry:
  "i < 36 \<Longrightarrow> covariance_loop w1 w2 a b 0 (replicate 36 0) ! i = w1 * a ! i + w2 * b ! i"
  by (simp add: covariance_loop_nth)


text \<open>The numbers of the examples are binary64 numbers.\<close>

lemma round_double_zero: "round_double s 0 = DFinite s 0"
  by (simp add: round_double_def)

lemma round_double_samples:
  "round_double s (1 / 2) = DFinite s (1 / 2)"
  "round_double s (3 / 2) = DFinite s (3 / 2)"
  "round_double s 1 = DFinite s 1"
  "round_double s 2 = DFinite s 2"
  "round_double s 3 = DFinite s 3"
  "round_double s 4 = DFinite s 4"
  using round_double_exact[of 1 "- 1" "1 / 2" s] round_double_exact[of 3 "- 1" "3 / 2" s]
    round_double_exact[of 1 0 1 s] round_double_exact[of 2 0 2 s]
    round_double_exact[of 3 0 3 s] round_double_exact[of 4 0 4 s]
  by (simp_all add: pow2_def)

lemmas double_arith =
  plus_double_def times_double_def zero_double_def one_double_def half_def
  signed_value_def Let_def round_double_zero round_double_samples

lemma sample_arithmetic:
  "half * 1 + half * DFinite False 3 = DFinite False 2"
  "half * 0 + half * 0 = (0::double)"
  "half * DFinite False 2 + half * DFinite False 4 = DFinite False 3"
  by (simp_all add: double_arith)

section \<open>The fusion functions\<close>

text \<open>
  With both pointers of its pair set, a fusion function sends the message it builds and
  nothing else; \<^verbatim>\<open>fusePoses\<close> also sends the transform derived from it.
\<close>

lemma fusePoses_ready:
  "last_lidar_msg s = Some A \<Longrightarrow> last_gnss_msg s = Some B \<Longrightarrow>
   fusePoses now s =
     Some [PublishFinalPose (fused_pose now (lidar_weight s) (gnss_weight s) A B),
           SendTransform (transformStamped (fused_pose now (lidar_weight s) (gnss_weight s) A B))]"
  by (simp add: fusePoses_def broadcastTransform_def Let_def)

lemma fuseTwists_ready:
  "last_ekf_twist_msg s = Some E \<Longrightarrow> last_filter_twist_msg s = Some F \<Longrightarrow>
   fuseTwists now s =
     Some [PublishFusedTwist (fused_twist now (ekf_twist_weight s) (filter_twist_weight s) E F)]"
  by (simp add: fuseTwists_def)

lemma fused_pose_position:
  "position_of (fused_pose now w1 w2 A B) =
     \<lparr> point_x = w1 * point_x (position_of A) + w2 * point_x (position_of B),
       point_y = w1 * point_y (position_of A) + w2 * point_y (position_of B),
       point_z = w1 * point_z (position_of A) + w2 * point_z (position_of B) \<rparr>"
  by (simp add: fused_pose_def Let_def)

lemma fused_pose_orientation: "orientation_of (fused_pose now w1 w2 A B) = orientation_of A"
  by (simp add: fused_pose_def Let_def)

lemma fused_pose_covariance:
  "covariance_of (fused_pose now w1 w2 A B) =
     covariance_loop w1 w2 (covariance_of A) (covariance_of B) 0 (replicate 36 0)"
  by (simp add: fused_pose_def Let_def)

lemma fused_pose_header:
  "pcs_header (fused_pose now w1 w2 A B) = \<lparr> hdr_stamp = now, hdr_frame_id = ''map'' \<rparr>"
  by (simp add: fused_pose_def Let_def)

lemma fused_twist_covariance:
  "twist_covariance_of (fused_twist now w1 w2 E F) =
     covariance_loop w1 w2 (twist_covariance_of E) (twist_covariance_of F) 0 (replicate 36 0)"
  by (simp add: fused_twist_def)

lemma fused_twist_header:
  "tcs_header (fused_twist now w1 w2 E F) = \<lparr> hdr_stamp = now, hdr_frame_id = ''map'' \<rparr>"
  by (simp add: fused_twist_def)

lemma fused_twist_twist:
  "twc_twist (tcs_twist (fused_twist now w1 w2 E F)) =
     \<lparr> twist_linear = \<lparr> vec_x = 0, vec_y = 0, vec_z = 0 \<rparr>,
       twist_angular = \<lparr> vec_x = 0, vec_y = 0,
         vec_z = w1 * vec_z (angular_of E) + w2 * vec_z (angular_of F) \<rparr> \<rparr>"
  by (simp add: fused_twist_def)

lemma sample_fields:
  "position_of (pose_sample t p q c) = p"
  "orientation_of (pose_sample t p q c) = q"
  "covariance_of (pose_sample t p q c) = replicate 36 c"
  "pcs_header (pose_sample t p q c) = \<lparr> hdr_stamp = t, hdr_frame_id = ''map'' \<rparr>"
  "linear_of (twist_sample t l a c) = l"
  "angular_of (twist_sample t l a c) = a"
  "twist_covariance_of (twist_sample t l a c) = replicate 36 c"
  "tcs_header (twist_sample t l a c) = \<lparr> hdr_stamp = t, hdr_frame_id = ''base_link'' \<rparr>"
  by (simp_all add: pose_sample_def twist_sample_def)

lemma ready_node_fields:
  "last_lidar_msg ready_node = Some lidar_sample"
  "last_gnss_msg ready_node = Some gnss_sample"
  "last_ekf_twist_msg ready_node = Some ekf_sample"
  "last_filter_twist_msg ready_node = Some filter_sample"
  "lidar_weight ready_node = half"
  "gnss_weight ready_node = half"
  "ekf_twist_weight ready_node = half"
  "filter_twist_weight ready_node = half"
  by (simp_all add: ready_node_def PoseFusionNode_init_def)

text \<open>
  Claim C1. With the LiDAR message \<open>A\<close> and the GNSS message \<open>B\<close> cached,
  \<^verbatim>\<open>fusePoses\<close> publishes a pose whose position is, in each of x, y and z, the
  LiDAR weight times the component of \<open>A\<close> plus the GNSS weight times the component of
  \<open>B\<close> (the products and the sum are those of binary64). With both weights
  \<^verbatim>\<open>0.5\<close>, \<open>A\<close> at \<open>(1, 0, 0)\<close> and \<open>B\<close> at \<open>(3, 0, 0)\<close> the position is \<open>(2, 0, 0)\<close>.
\<close>

theorem C1_fused_position:
  assumes "last_lidar_msg s = Some A" and "last_gnss_msg s = Some B"
  shows "\<exists>p t. fusePoses now s = Some [PublishFinalPose p, SendTransform t]
    \<and> point_x (position_of p)
        = lidar_weight s * point_x (position_of A) + gnss_weight s * point_x (position_of B)
    \<and> point_y (position_of p)
        = lidar_weight s * point_y (position_of A) + gnss_weight s * point_y (position_of B)
    \<and> point_z (position_of p)
        = lidar_weight s * point_z (position_of A) + gnss_weight s * point_z (position_of B)
    \<and> (lidar_weight s = half \<and> gnss_weight s = half
        \<and> position_of A = \<lparr> point_x = 1, point_y = 0, point_z = 0 \<rparr>
        \<and> position_of B = \<lparr> point_x = DFinite False 3, point_y = 0, point_z = 0 \<rparr>
        \<longrightarrow> position_of p = \<lparr> point_x = DFinite False 2, point_y = 0, point_z = 0 \<rparr>)"
  using assms
  by (simp add: fusePoses_ready fused_pose_position sample_arithmetic)

theorem C1_fused_position_witness:
  "\<exists>p t. fusePoses (at_second 1000) ready_node = Some [PublishFinalPose p, SendTransform t]
     \<and> position_of p = \<lparr> point_x = DFinite False 2, point_y = 0, point_z = 0 \<rparr>"
  using C1_fused_position[of ready_node lidar_sample gnss_sample "at_second 1000"]
  by (simp add: ready_node_fields lidar_sample_def gnss_sample_def sample_fields) blast

text \<open>
  Claim C2. The covariance of the published pose has 36 entries, and entry \<open>i\<close> is the
  LiDAR weight times entry \<open>i\<close> of the LiDAR covariance plus the GNSS weight times entry
  \<open>i\<close> of the GNSS covariance; the covariance of the published twist is the same blend
  of the two cached twist covariances with the two twist weights.
\<close>

theorem C2_fused_covariance:
  "(last_lidar_msg s = Some A \<and> last_gnss_msg s = Some B \<longrightarrow>
      (\<exists>p t. fusePoses now s = Some [PublishFinalPose p, SendTransform t]
         \<and> length (covariance_of p) = 36
         \<and> (\<forall>i<36. covariance_of p ! i
               = lidar_weight s * covariance_of A ! i + gnss_weight s * covariance_of B ! i)))
   \<and> (last_ekf_twist_msg s = Some E \<and> last_filter_twist_msg s = Some F \<longrightarrow>
      (\<exists>tw. fuseTwists now s = Some [PublishFusedTwist tw]
         \<and> length (twist_covariance_of tw) = 36
         \<and> (\<forall>i<36. twist_covariance_of tw ! i
               = ekf_twist_weight s * twist_covariance_of E ! i
                 + filter_twist_weight s * twist_covariance_of F ! i)))"
  by (simp add: fusePoses_ready fuseTwists_ready fused_pose_covariance fused_twist_covariance
        covariance_loop_length covariance_loop_entry)

theorem C2_fused_covariance_witness:
  "(\<exists>p t. fusePoses (at_second 1000) ready_node = Some [PublishFinalPose p, SendTransform t]
      \<and> length (covariance_of p) = 36 \<and> covariance_of p ! 35 = DFinite False 3
      \<and> covariance_of lidar_sample ! 35 = DFinite False 2
      \<and> covariance_of gnss_sample ! 35 = DFinite False 4)
   \<and> (\<exists>tw. fuseTwists (at_second 1000) ready_node = Some [PublishFusedTwist tw]
      \<and> length (twist_covariance_of tw) = 36 \<and> twist_covariance_of tw ! 7 = DFinite False 3
      \<and> twist_covariance_of ekf_sample ! 7 = DFinite False 2
      \<and> twist_covariance_of filter_sample ! 7 = DFinite False 4)"
proof -
  note C = C2_fused_covariance[of ready_node lidar_sample gnss_sample "at_second 1000"
      ekf_sample filter_sample]
  from C obtain p t where p:
    "fusePoses (at_second 1000) ready_node = Some [PublishFinalPose p, SendTransform t]"
    "length (covariance_of p) = 36"
    "\<forall>i<36. covariance_of p ! i
       = half * covariance_of lidar_sample ! i + half * covariance_of gnss_sample ! i"
    by (auto simp: ready_node_fields)
  from C obtain tw where tw:
    "fuseTwists (at_second 1000) ready_node = Some [PublishFusedTwist tw]"
    "length (twist_covariance_of tw) = 36"
    "\<forall>i<36. twist_covariance_of tw ! i
       = half * twist_covariance_of ekf_sample ! i + half * twist_covariance_of filter_sample ! i"
    by (auto simp: ready_node_fields)
  have l: "covariance_of lidar_sample ! 35 = DFinite False 2"
    and g: "covariance_of gnss_sample ! 35 = DFinite False 4"
    and e: "twist_covariance_of ekf_sample ! 7 = DFinite False 2"
    and f: "twist_covariance_of filter_sample ! 7 = DFinite False 4"
    by (simp_all add: lidar_sample_def gnss_sample_def ekf_sample_def filter_sample_def
          sample_fields)
  from p(3) have "covariance_of p ! 35 = DFinite False 3"
    by (simp add: l g sample_arithmetic)
  moreover from tw(3) have "twist_covariance_of tw ! 7 = DFinite False 3"
    by (simp add: e f sample_arithmetic)
  ultimately show ?thesis using p(1,2) tw(1,2) l g e f by simp
qed

text \<open>
  Claim C3. The orientation of the published pose is the orientation of the cached LiDAR
  message, whatever the weights and the GNSS message are.
\<close>

theorem C3_fused_orientation:
  assumes "last_lidar_msg s = Some A" and "last_gnss_msg s = Some B"
  shows "\<exists>p t. fusePoses now s = Some [PublishFinalPose p, SendTransform t]
    \<and> orientation_of p = orientation_of A"
  using assms by (simp add: fusePoses_ready fused_pose_orientation)

theorem C3_fused_orientation_witness:
  "\<exists>p t. fusePoses (at_second 1000) ready_node = Some [PublishFinalPose p, SendTransform t]
     \<and> orientation_of p = no_rotation \<and> orientation_of gnss_sample = half_turn
     \<and> no_rotation \<noteq> half_turn"
  using C3_fused_orientation[of ready_node lidar_sample gnss_sample "at_second 1000"]
  by (simp add: ready_node_fields lidar_sample_def gnss_sample_def sample_fields
        no_rotation_def half_turn_def zero_double_def one_double_def)

text \<open>
  Claim C6. The transform that \<^verbatim>\<open>broadcastTransform\<close> sends for a pose has the pose's
  position as its translation and the pose's orientation as its rotation, component by
  component, with the frame names \<^verbatim>\<open>map\<close> and \<^verbatim>\<open>base_link\<close> whatever the pose is;
  and the transform \<^verbatim>\<open>fusePoses\<close> sends is the one of the pose it publishes.
\<close>

theorem C6_transform_projection:
  "(\<exists>t. broadcastTransform fp = [SendTransform t]
      \<and> vec_x (tf_translation (ts_transform t)) = point_x (position_of fp)
      \<and> vec_y (tf_translation (ts_transform t)) = point_y (position_of fp)
      \<and> vec_z (tf_translation (ts_transform t)) = point_z (position_of fp)
      \<and> quat_x (tf_rotation (ts_transform t)) = quat_x (orientation_of fp)
      \<and> quat_y (tf_rotation (ts_transform t)) = quat_y (orientation_of fp)
      \<and> quat_z (tf_rotation (ts_transform t)) = quat_z (orientation_of fp)
      \<and> quat_w (tf_rotation (ts_transform t)) = quat_w (orientation_of fp)
      \<and> hdr_frame_id (ts_header t) = ''map'' \<and> ts_child_frame_id t = ''base_link'')
   \<and> (last_lidar_msg s = Some A \<and> last_gnss_msg s = Some B \<longrightarrow>
        (\<exists>p. fusePoses now s = Some (PublishFinalPose p # broadcastTransform p)))"
  by (simp add: broadcastTransform_def transformStamped_def fusePoses_def Let_def)

theorem C6_transform_projection_witness:
  "\<exists>p t. fusePoses (at_second 1000) ready_node = Some [PublishFinalPose p, SendTransform t]
     \<and> position_of p = \<lparr> point_x = DFinite False 2, point_y = 0, point_z = 0 \<rparr>
     \<and> orientation_of p = no_rotation
     \<and> tf_translation (ts_transform t) = \<lparr> vec_x = DFinite False 2, vec_y = 0, vec_z = 0 \<rparr>
     \<and> tf_rotation (ts_transform t) = no_rotation
     \<and> hdr_frame_id (ts_header t) = ''map'' \<and> ts_child_frame_id t = ''base_link''"
proof -
  let ?p = "fused_pose (at_second 1000) half half lidar_sample gnss_sample"
  have run: "fusePoses (at_second 1000) ready_node
      = Some [PublishFinalPose ?p, SendTransform (transformStamped ?p)]"
    by (simp add: fusePoses_ready ready_node_fields)
  have pos: "position_of ?p = \<lparr> point_x = DFinite False 2, point_y = 0, point_z = 0 \<rparr>"
    by (simp add: fused_pose_position lidar_sample_def gnss_sample_def sample_fields
          sample_arithmetic)
  have ori: "orientation_of ?p = no_rotation"
    by (simp add: fused_pose_orientation lidar_sample_def sample_fields)
  from C6_transform_projection[of ?p ready_node lidar_sample gnss_sample "at_second 1000"]
  obtain t where t: "broadcastTransform ?p = [SendTransform t]"
    "vec_x (tf_translation (ts_transform t)) = point_x (position_of ?p)"
    "vec_y (tf_translation (ts_transform t)) = point_y (position_of ?p)"
    "vec_z (tf_translation (ts_transform t)) = point_z (position_of ?p)"
    "quat_x (tf_rotation (ts_transform t)) = quat_x (orientation_of ?p)"
    "quat_y (tf_rotation (ts_transform t)) = quat_y (orientation_of ?p)"
    "quat_z (tf_rotation (ts_transform t)) = quat_z (orientation_of ?p)"
    "quat_w (tf_rotation (ts_transform t)) = quat_w (orientation_of ?p)"
    "hdr_frame_id (ts_header t) = ''map''" "ts_child_frame_id t = ''base_link''"
    by blast
  from t(1) have teq: "t = transformStamped ?p" by (simp add: broadcastTransform_def)
  have tr: "tf_translation (ts_transform t) = \<lparr> vec_x = DFinite False 2, vec_y = 0, vec_z = 0 \<rparr>"
    using t(2,3,4) by (simp add: pos Vector3.equality)
  have ro: "tf_rotation (ts_transform t) = no_rotation"
    using t(5,6,7,8) by (simp add: ori Quaternion.equality)
  show ?thesis
    using run pos ori tr ro t(9,10) teq by simp
qed

text \<open>
  Claim C8. With both twist messages cached, \<^verbatim>\<open>fuseTwists\<close> publishes a twist whose
  angular z is the EKF weight times the EKF message's angular z plus the filter weight
  times the filter message's angular z, and whose linear x, y, z and angular x, y are
  \<^verbatim>\<open>0.0\<close>.
\<close>

theorem C8_fused_twist_components:
  assumes "last_ekf_twist_msg s = Some E" and "last_filter_twist_msg s = Some F"
  shows "\<exists>tw. fuseTwists now s = Some [PublishFusedTwist tw]
    \<and> vec_z (angular_of tw)
        = ekf_twist_weight s * vec_z (angular_of E) + filter_twist_weight s * vec_z (angular_of F)
    \<and> vec_x (linear_of tw) = 0 \<and> vec_y (linear_of tw) = 0 \<and> vec_z (linear_of tw) = 0
    \<and> vec_x (angular_of tw) = 0 \<and> vec_y (angular_of tw) = 0"
  using assms by (simp add: fuseTwists_ready fused_twist_twist)

theorem C8_fused_twist_components_witness:
  "\<exists>tw. fuseTwists (at_second 1000) ready_node = Some [PublishFusedTwist tw]
     \<and> angular_of tw = \<lparr> vec_x = 0, vec_y = 0, vec_z = DFinite False 2 \<rparr>
     \<and> linear_of tw = \<lparr> vec_x = 0, vec_y = 0, vec_z = 0 \<rparr>
     \<and> vec_x (linear_of ekf_sample) = 1 \<and> vec_x (linear_of filter_sample) = DFinite False 3"
proof -
  from C8_fused_twist_components[of ready_node ekf_sample filter_sample "at_second 1000"]
  obtain tw where tw: "fuseTwists (at_second 1000) ready_node = Some [PublishFusedTwist tw]"
    "vec_z (angular_of tw) = half * vec_z (angular_of ekf_sample)
        + half * vec_z (angular_of filter_sample)"
    "vec_x (linear_of tw) = 0" "vec_y (linear_of tw) = 0" "vec_z (linear_of tw) = 0"
    "vec_x (angular_of tw) = 0" "vec_y (angular_of tw) = 0"
    by (auto simp: ready_node_fields)
  from tw(2) have z: "vec_z (angular_of tw) = DFinite False 2"
    by (simp add: ekf_sample_def filter_sample_def sample_fields sample_arithmetic)
  have "angular_of tw = \<lparr> vec_x = 0, vec_y = 0, vec_z = DFinite False 2 \<rparr>"
    using z tw(6,7) by (simp add: Vector3.equality)
  moreover have "linear_of tw = \<lparr> vec_x = 0, vec_y = 0, vec_z = 0 \<rparr>"
    using tw(3,4,5) by (simp add: Vector3.equality)
  moreover have "vec_x (linear_of ekf_sample) = 1"
    "vec_x (linear_of filter_sample) = DFinite False 3"
    by (simp_all add: ekf_sample_def filter_sample_def sample_fields)
  ultimately show ?thesis using tw(1) by simp
qed

text \<open>
  Claim C9. The stamp of the published pose and of the published twist is the clock
  reading of the fusion, \<open>now\<close>, whatever the stamps of the cached messages are, and the
  transform carries the stamp of the pose.
\<close>

theorem C9_fresh_timestamp:
  "(last_lidar_msg s = Some A \<and> last_gnss_msg s = Some B \<longrightarrow>
      (\<exists>p t. fusePoses now s = Some [PublishFinalPose p, SendTransform t]
         \<and> hdr_stamp (pcs_header p) = now
         \<and> hdr_stamp (ts_header t) = hdr_stamp (pcs_header p)))
   \<and> (last_ekf_twist_msg s = Some E \<and> last_filter_twist_msg s = Some F \<longrightarrow>
      (\<exists>tw. fuseTwists now s = Some [PublishFusedTwist tw]
         \<and> hdr_stamp (tcs_header tw) = now))"
  by (simp add: fusePoses_ready fuseTwists_ready fused_pose_header fused_twist_header
        transformStamped_def)

theorem C9_fresh_timestamp_witness:
  "(\<exists>p t. fusePoses (at_second 1000) ready_node = Some [PublishFinalPose p, SendTransform t]
      \<and> hdr_stamp (pcs_header p) = at_second 1000
      \<and> hdr_stamp (ts_header t) = at_second 1000
      \<and> hdr_stamp (pcs_header lidar_sample) = at_second 10
      \<and> hdr_stamp (pcs_header gnss_sample) = at_second 3)
   \<and> (\<exists>tw. fuseTwists (at_second 1000) ready_node = Some [PublishFusedTwist tw]
      \<and> hdr_stamp (tcs_header tw) = at_second 1000
      \<and> hdr_stamp (tcs_header ekf_sample) = at_second 10
      \<and> hdr_stamp (tcs_header filter_sample) = at_second 3)"
  using C9_fresh_timestamp[of ready_node lidar_sample gnss_sample "at_second 1000"
      ekf_sample filter_sample]
  by (simp add: ready_node_fields lidar_sample_def gnss_sample_def ekf_sample_def
        filter_sample_def sample_fields) metis

section \<open>The callbacks and the run of the node\<close>

text \<open>
  A callback never dereferences a null pointer: it fuses only after the test of the
  other pointer, and its own pointer was just set.
\<close>

lemma lidarPoseCallback_cases:
  "lidarPoseCallback now m s =
     (case last_gnss_msg s of
        None \<Rightarrow> Some (s\<lparr>last_lidar_msg := Some m\<rparr>, [])
      | Some g \<Rightarrow>
          Some (s\<lparr>last_lidar_msg := Some m\<rparr>,
            [PublishFinalPose (fused_pose now (lidar_weight s) (gnss_weight s) m g),
             SendTransform (transformStamped (fused_pose now (lidar_weight s) (gnss_weight s) m g))]))"
  by (simp add: lidarPoseCallback_def fusePoses_def broadcastTransform_def Let_def
        split: option.split)

lemma gnssPoseCallback_cases:
  "gnssPoseCallback now m s =
     (case last_lidar_msg s of
        None \<Rightarrow> Some (s\<lparr>last_gnss_msg := Some m\<rparr>, [])
      | Some l \<Rightarrow>
          Some (s\<lparr>last_gnss_msg := Some m\<rparr>,
            [PublishFinalPose (fused_pose now (lidar_weight s) (gnss_weight s) l m),
             SendTransform (transformStamped (fused_pose now (lidar_weight s) (gnss_weight s) l m))]))"
  by (simp add: gnssPoseCallback_def fusePoses_def broadcastTransform_def Let_def
        split: option.split)

lemma ekfTwistCallback_cases:
  "ekfTwistCallback now m s =
     (case last_filter_twist_msg s of
        None \<Rightarrow> Some (s\<lparr>last_ekf_twist_msg := Some m\<rparr>, [])
      | Some f \<Rightarrow>
          Some (s\<lparr>last_ekf_twist_msg := Some m\<rparr>,
            [PublishFusedTwist
               (fused_twist now (ekf_twist_weight s) (filter_twist_weight s) m f)]))"
  by (simp add: ekfTwistCallback_def fuseTwists_def Let_def split: option.split)

lemma filterTwistCallback_cases:
  "filterTwistCallback now m s =
     (case last_ekf_twist_msg s of
        None \<Rightarrow> Some (s\<lparr>last_filter_twist_msg := Some m\<rparr>, [])
      | Some e \<Rightarrow>
          Some (s\<lparr>last_filter_twist_msg := Some m\<rparr>,
            [PublishFusedTwist
               (fused_twist now (ekf_twist_weight s) (filter_twist_weight s) e m)]))"
  by (simp add: filterTwistCallback_def fuseTwists_def Let_def split: option.split)

lemmas callback_cases =
  lidarPoseCallback_cases gnssPoseCallback_cases ekfTwistCallback_cases
  filterTwistCallback_cases

lemma dispatch_total: "\<exists>s' out. dispatch now a s = Some (s', out)"
  by (cases a) (simp_all add: callback_cases split: option.split)

lemma spin_total: "\<exists>s' out. spin s arrivals = Some (s', out)"
proof (induction arrivals arbitrary: s)
  case Nil
  show ?case by simp
next
  case (Cons na rest)
  obtain now a where na: "na = (now, a)" by (cases na)
  obtain s1 out1 where d: "dispatch now a s = Some (s1, out1)"
    using dispatch_total by blast
  obtain s2 out2 where r: "spin s1 rest = Some (s2, out2)"
    using Cons.IH by blast
  show ?case by (simp add: na d r)
qed

text \<open>
  While one slot of a pair is empty and nothing arrives on its topic, the slot stays
  empty and the pair sends nothing.
\<close>

lemma dispatch_gnss_empty:
  "last_gnss_msg s = None \<Longrightarrow> topic_of (now, a) \<noteq> GnssPoseTopic \<Longrightarrow>
   dispatch now a s = Some (s', out) \<Longrightarrow>
   last_gnss_msg s' = None \<and> filter is_final_pose out = [] \<and> filter is_transform out = []"
  by (cases a) (auto simp: callback_cases split: option.splits)

lemma dispatch_lidar_empty:
  "last_lidar_msg s = None \<Longrightarrow> topic_of (now, a) \<noteq> LidarPoseTopic \<Longrightarrow>
   dispatch now a s = Some (s', out) \<Longrightarrow>
   last_lidar_msg s' = None \<and> filter is_final_pose out = [] \<and> filter is_transform out = []"
  by (cases a) (auto simp: callback_cases split: option.splits)

lemma dispatch_filter_empty:
  "last_filter_twist_msg s = None \<Longrightarrow> topic_of (now, a) \<noteq> FilterTwistTopic \<Longrightarrow>
   dispatch now a s = Some (s', out) \<Longrightarrow>
   last_filter_twist_msg s' = None \<and> filter is_fused_twist out = []"
  by (cases a) (auto simp: callback_cases split: option.splits)

lemma dispatch_ekf_empty:
  "last_ekf_twist_msg s = None \<Longrightarrow> topic_of (now, a) \<noteq> EkfTwistTopic \<Longrightarrow>
   dispatch now a s = Some (s', out) \<Longrightarrow>
   last_ekf_twist_msg s' = None \<and> filter is_fused_twist out = []"
  by (cases a) (auto simp: callback_cases split: option.splits)

lemma spin_gnss_empty:
  "last_gnss_msg s = None \<Longrightarrow> GnssPoseTopic \<notin> topic_of ` set arrivals \<Longrightarrow>
   spin s arrivals = Some (s', out) \<Longrightarrow>
   filter is_final_pose out = [] \<and> filter is_transform out = []"
proof (induction arrivals arbitrary: s s' out)
  case Nil
  then show ?case by simp
next
  case (Cons na rest)
  obtain now a where na: "na = (now, a)" by (cases na)
  obtain s1 out1 where d: "dispatch now a s = Some (s1, out1)"
    using dispatch_total by blast
  obtain s2 out2 where r: "spin s1 rest = Some (s2, out2)"
    using spin_total by blast
  have out: "out = out1 @ out2" using Cons.prems(3) by (simp add: na d r)
  have t: "topic_of (now, a) \<noteq> GnssPoseTopic" using Cons.prems(2) na by auto
  from dispatch_gnss_empty[OF Cons.prems(1) t d]
  have 1: "last_gnss_msg s1 = None" "filter is_final_pose out1 = []" "filter is_transform out1 = []"
    by simp_all
  from Cons.prems(2) have "GnssPoseTopic \<notin> topic_of ` set rest" by auto
  from Cons.IH[OF 1(1) this r] 1 out show ?case by simp
qed

lemma spin_lidar_empty:
  "last_lidar_msg s = None \<Longrightarrow> LidarPoseTopic \<notin> topic_of ` set arrivals \<Longrightarrow>
   spin s arrivals = Some (s', out) \<Longrightarrow>
   filter is_final_pose out = [] \<and> filter is_transform out = []"
proof (induction arrivals arbitrary: s s' out)
  case Nil
  then show ?case by simp
next
  case (Cons na rest)
  obtain now a where na: "na = (now, a)" by (cases na)
  obtain s1 out1 where d: "dispatch now a s = Some (s1, out1)"
    using dispatch_total by blast
  obtain s2 out2 where r: "spin s1 rest = Some (s2, out2)"
    using spin_total by blast
  have out: "out = out1 @ out2" using Cons.prems(3) by (simp add: na d r)
  have t: "topic_of (now, a) \<noteq> LidarPoseTopic" using Cons.prems(2) na by auto
  from dispatch_lidar_empty[OF Cons.prems(1) t d]
  have 1: "last_lidar_msg s1 = None" "filter is_final_pose out1 = []" "filter is_transform out1 = []"
    by simp_all
  from Cons.prems(2) have "LidarPoseTopic \<notin> topic_of ` set rest" by auto
  from Cons.IH[OF 1(1) this r] 1 out show ?case by simp
qed

lemma spin_filter_empty:
  "last_filter_twist_msg s = None \<Longrightarrow> FilterTwistTopic \<notin> topic_of ` set arrivals \<Longrightarrow>
   spin s arrivals = Some (s', out) \<Longrightarrow> filter is_fused_twist out = []"
proof (induction arrivals arbitrary: s s' out)
  case Nil
  then show ?case by simp
next
  case (Cons na rest)
  obtain now a where na: "na = (now, a)" by (cases na)
  obtain s1 out1 where d: "dispatch now a s = Some (s1, out1)"
    using dispatch_total by blast
  obtain s2 out2 where r: "spin s1 rest = Some (s2, out2)"
    using spin_total by blast
  have out: "out = out1 @ out2" using Cons.prems(3) by (simp add: na d r)
  have t: "topic_of (now, a) \<noteq> FilterTwistTopic" using Cons.prems(2) na by auto
  from dispatch_filter_empty[OF Cons.prems(1) t d]
  have 1: "last_filter_twist_msg s1 = None" "filter is_fused_twist out1 = []"
    by simp_all
  from Cons.prems(2) have "FilterTwistTopic \<notin> topic_of ` set rest" by auto
  from Cons.IH[OF 1(1) this r] 1 out show ?case by simp
qed

lemma spin_ekf_empty:
  "last_ekf_twist_msg s = None \<Longrightarrow> EkfTwistTopic \<notin> topic_of ` set arrivals \<Longrightarrow>
   spin s arrivals = Some (s', out) \<Longrightarrow> filter is_fused_twist out = []"
proof (induction arrivals arbitrary: s s' out)
  case Nil
  then show ?case by simp
next
  case (Cons na rest)
  obtain now a where na: "na = (now, a)" by (cases na)
  obtain s1 out1 where d: "dispatch now a s = Some (s1, out1)"
    using dispatch_total by blast
  obtain s2 out2 where r: "spin s1 rest = Some (s2, out2)"
    using spin_total by blast
  have out: "out = out1 @ out2" using Cons.prems(3) by (simp add: na d r)
  have t: "topic_of (now, a) \<noteq> EkfTwistTopic" using Cons.prems(2) na by auto
  from dispatch_ekf_empty[OF Cons.prems(1) t d]
  have 1: "last_ekf_twist_msg s1 = None" "filter is_fused_twist out1 = []"
    by simp_all
  from Cons.prems(2) have "EkfTwistTopic \<notin> topic_of ` set rest" by auto
  from Cons.IH[OF 1(1) this r] 1 out show ?case by simp
qed

lemma init_empty:
  "last_lidar_msg PoseFusionNode_init = None" "last_gnss_msg PoseFusionNode_init = None"
  "last_ekf_twist_msg PoseFusionNode_init = None"
  "last_filter_twist_msg PoseFusionNode_init = None"
  by (simp_all add: PoseFusionNode_init_def)

text \<open>
  Claim C4. The node as constructed, run on any sequence of arrivals, returns; if the
  sequence has no arrival on the LiDAR topic, or none on the GNSS topic, it publishes no
  fused pose and sends no transform; if it has no arrival on the EKF twist topic, or
  none on the filter twist topic, it publishes no fused twist. Arrivals of the other
  pair may be interleaved at will.
\<close>

theorem C4_no_output_before_both:
  "\<exists>s' out. spin PoseFusionNode_init arrivals = Some (s', out)
     \<and> (LidarPoseTopic \<notin> topic_of ` set arrivals \<or> GnssPoseTopic \<notin> topic_of ` set arrivals
          \<longrightarrow> filter is_final_pose out = [] \<and> filter is_transform out = [])
     \<and> (EkfTwistTopic \<notin> topic_of ` set arrivals \<or> FilterTwistTopic \<notin> topic_of ` set arrivals
          \<longrightarrow> filter is_fused_twist out = [])"
proof -
  obtain s' out where r: "spin PoseFusionNode_init arrivals = Some (s', out)"
    using spin_total by blast
  show ?thesis
    using r spin_lidar_empty[OF init_empty(1) _ r] spin_gnss_empty[OF init_empty(2) _ r]
      spin_ekf_empty[OF init_empty(3) _ r] spin_filter_empty[OF init_empty(4) _ r]
    by auto
qed

theorem C4_no_output_before_both_witness:
  "\<exists>s'. spin PoseFusionNode_init
      [(at_second 1, LidarPose lidar_sample), (at_second 2, EkfTwist ekf_sample),
       (at_second 3, LidarPose lidar_sample), (at_second 4, EkfTwist ekf_sample)]
     = Some (s', [])"
proof -
  let ?arrivals = "[(at_second 1, LidarPose lidar_sample), (at_second 2, EkfTwist ekf_sample),
       (at_second 3, LidarPose lidar_sample), (at_second 4, EkfTwist ekf_sample)]"
  from C4_no_output_before_both[of ?arrivals]
  obtain s' out where r: "spin PoseFusionNode_init ?arrivals = Some (s', out)"
    and n: "filter is_final_pose out = []" "filter is_transform out = []"
      "filter is_fused_twist out = []"
    by auto
  have "out = []"
  proof (cases out)
    case Nil
    then show ?thesis .
  next
    case (Cons e es)
    with n show ?thesis by (cases e) simp_all
  qed
  with r show ?thesis by blast
qed

text \<open>
  With both slots of the position pair set, every arrival leaves them set; an arrival
  on one of the two pose topics sends exactly one fused pose and one transform, an
  arrival on a twist topic sends neither. The same holds for the rate pair.
\<close>

lemma dispatch_pose_ready:
  assumes "last_lidar_msg s \<noteq> None" and "last_gnss_msg s \<noteq> None"
    and "dispatch now a s = Some (s', out)"
  shows "last_lidar_msg s' \<noteq> None \<and> last_gnss_msg s' \<noteq> None
    \<and> length (filter is_final_pose out) = (if is_pose_arrival (now, a) then 1 else 0)
    \<and> length (filter is_transform out) = (if is_pose_arrival (now, a) then 1 else 0)"
  using assms
  by (cases a) (auto simp: callback_cases is_pose_arrival_def split: option.splits)

lemma dispatch_twist_ready:
  assumes "last_ekf_twist_msg s \<noteq> None" and "last_filter_twist_msg s \<noteq> None"
    and "dispatch now a s = Some (s', out)"
  shows "last_ekf_twist_msg s' \<noteq> None \<and> last_filter_twist_msg s' \<noteq> None
    \<and> length (filter is_fused_twist out) = (if is_twist_arrival (now, a) then 1 else 0)"
  using assms
  by (cases a) (auto simp: callback_cases is_twist_arrival_def split: option.splits)

lemma spin_pose_ready:
  "last_lidar_msg s \<noteq> None \<Longrightarrow> last_gnss_msg s \<noteq> None \<Longrightarrow>
   spin s arrivals = Some (s', out) \<Longrightarrow>
   length (filter is_final_pose out) = length (filter is_pose_arrival arrivals)
   \<and> length (filter is_transform out) = length (filter is_pose_arrival arrivals)"
proof (induction arrivals arbitrary: s s' out)
  case Nil
  then show ?case by simp
next
  case (Cons na rest)
  obtain now a where na: "na = (now, a)" by (cases na)
  obtain s1 out1 where d: "dispatch now a s = Some (s1, out1)"
    using dispatch_total by blast
  obtain s2 out2 where r: "spin s1 rest = Some (s2, out2)"
    using spin_total by blast
  have out: "out = out1 @ out2" using Cons.prems(3) by (simp add: na d r)
  from dispatch_pose_ready[OF Cons.prems(1,2) d]
  have 1: "last_lidar_msg s1 \<noteq> None" "last_gnss_msg s1 \<noteq> None"
    "length (filter is_final_pose out1) = (if is_pose_arrival (now, a) then 1 else 0)"
    "length (filter is_transform out1) = (if is_pose_arrival (now, a) then 1 else 0)"
    by simp_all
  from Cons.IH[OF 1(1,2) r] 1(3,4) show ?case by (simp add: out na)
qed

lemma spin_twist_ready:
  "last_ekf_twist_msg s \<noteq> None \<Longrightarrow> last_filter_twist_msg s \<noteq> None \<Longrightarrow>
   spin s arrivals = Some (s', out) \<Longrightarrow>
   length (filter is_fused_twist out) = length (filter is_twist_arrival arrivals)"
proof (induction arrivals arbitrary: s s' out)
  case Nil
  then show ?case by simp
next
  case (Cons na rest)
  obtain now a where na: "na = (now, a)" by (cases na)
  obtain s1 out1 where d: "dispatch now a s = Some (s1, out1)"
    using dispatch_total by blast
  obtain s2 out2 where r: "spin s1 rest = Some (s2, out2)"
    using spin_total by blast
  have out: "out = out1 @ out2" using Cons.prems(3) by (simp add: na d r)
  from dispatch_twist_ready[OF Cons.prems(1,2) d]
  have 1: "last_ekf_twist_msg s1 \<noteq> None" "last_filter_twist_msg s1 \<noteq> None"
    "length (filter is_fused_twist out1) = (if is_twist_arrival (now, a) then 1 else 0)"
    by simp_all
  from Cons.IH[OF 1(1,2) r] 1(3) show ?case by (simp add: out na)
qed

text \<open>
  In a node whose two slots of a pair are set, each callback of the pair stores its
  message and sends exactly the fusion of it with the cached counterpart, and a run
  sends as many fusions as there are arrivals of the pair.
\<close>

lemma fusion_when_ready:
  "(last_lidar_msg s = Some l \<and> last_gnss_msg s = Some g \<longrightarrow>
      lidarPoseCallback now m s =
        Some (s\<lparr>last_lidar_msg := Some m\<rparr>,
          [PublishFinalPose (fused_pose now (lidar_weight s) (gnss_weight s) m g),
           SendTransform (transformStamped (fused_pose now (lidar_weight s) (gnss_weight s) m g))])
    \<and> gnssPoseCallback now m s =
        Some (s\<lparr>last_gnss_msg := Some m\<rparr>,
          [PublishFinalPose (fused_pose now (lidar_weight s) (gnss_weight s) l m),
           SendTransform (transformStamped (fused_pose now (lidar_weight s) (gnss_weight s) l m))])
    \<and> (\<exists>s' out. spin s arrivals = Some (s', out)
          \<and> length (filter is_final_pose out) = length (filter is_pose_arrival arrivals)
          \<and> length (filter is_transform out) = length (filter is_pose_arrival arrivals)))
   \<and> (last_ekf_twist_msg s = Some e \<and> last_filter_twist_msg s = Some f \<longrightarrow>
      ekfTwistCallback now tm s =
        Some (s\<lparr>last_ekf_twist_msg := Some tm\<rparr>,
          [PublishFusedTwist
             (fused_twist now (ekf_twist_weight s) (filter_twist_weight s) tm f)])
    \<and> filterTwistCallback now tm s =
        Some (s\<lparr>last_filter_twist_msg := Some tm\<rparr>,
          [PublishFusedTwist
             (fused_twist now (ekf_twist_weight s) (filter_twist_weight s) e tm)])
    \<and> (\<exists>s' out. spin s arrivals = Some (s', out)
          \<and> length (filter is_fused_twist out) = length (filter is_twist_arrival arrivals)))"
proof -
  obtain s' out where r: "spin s arrivals = Some (s', out)"
    using spin_total by blast
  have "last_lidar_msg s = Some l \<Longrightarrow> last_gnss_msg s = Some g \<Longrightarrow>
      length (filter is_final_pose out) = length (filter is_pose_arrival arrivals)
      \<and> length (filter is_transform out) = length (filter is_pose_arrival arrivals)"
    using spin_pose_ready[OF _ _ r] by simp
  moreover have "last_ekf_twist_msg s = Some e \<Longrightarrow> last_filter_twist_msg s = Some f \<Longrightarrow>
      length (filter is_fused_twist out) = length (filter is_twist_arrival arrivals)"
    using spin_twist_ready[OF _ _ r] by simp
  ultimately show ?thesis
    using r by (simp add: callback_cases)
qed

text \<open>
  A run over two lists of arrivals is the run over the first followed, from the node it
  leaves, by the run over the second.
\<close>

lemma spin_append:
  "spin s xs = Some (s1, out1) \<Longrightarrow> spin s1 ys = Some (s2, out2) \<Longrightarrow>
   spin s (xs @ ys) = Some (s2, out1 @ out2)"
proof (induction xs arbitrary: s s1 out1)
  case Nil
  then show ?case by simp
next
  case (Cons na rest)
  obtain now a where na: "na = (now, a)" by (cases na)
  obtain sa oa where d: "dispatch now a s = Some (sa, oa)"
    using dispatch_total by blast
  obtain sb ob where r: "spin sa rest = Some (sb, ob)"
    using spin_total by blast
  from Cons.prems(1) have e: "s1 = sb" "out1 = oa @ ob" by (simp_all add: na d r)
  from Cons.IH[OF r] Cons.prems(2) e have "spin sa (rest @ ys) = Some (s2, ob @ out2)"
    by simp
  then show ?case by (simp add: na d e)
qed

text \<open>
  What the slots hold after a run: the message that arrived last on the topic, or what
  the slot held before when nothing arrived on it. The weights do not change.
\<close>

lemma dispatch_slots:
  assumes "dispatch now a s = Some (s', out)"
  shows "last_lidar_msg s' = (case a of LidarPose m \<Rightarrow> Some m | _ \<Rightarrow> last_lidar_msg s)"
    and "last_gnss_msg s' = (case a of GnssPose m \<Rightarrow> Some m | _ \<Rightarrow> last_gnss_msg s)"
    and "last_ekf_twist_msg s' = (case a of EkfTwist m \<Rightarrow> Some m | _ \<Rightarrow> last_ekf_twist_msg s)"
    and "last_filter_twist_msg s'
           = (case a of FilterTwist m \<Rightarrow> Some m | _ \<Rightarrow> last_filter_twist_msg s)"
    and "lidar_weight s' = lidar_weight s" and "gnss_weight s' = gnss_weight s"
    and "ekf_twist_weight s' = ekf_twist_weight s"
    and "filter_twist_weight s' = filter_twist_weight s"
  using assms by (cases a; auto simp: callback_cases split: option.splits)+

lemma spin_lidar_slot:
  "spin s arrivals = Some (s', out) \<Longrightarrow>
   last_lidar_msg s' = (case latest_lidar arrivals of None \<Rightarrow> last_lidar_msg s | Some m \<Rightarrow> Some m)"
proof (induction arrivals arbitrary: s s' out)
  case Nil
  then show ?case by simp
next
  case (Cons na rest)
  obtain now a where na: "na = (now, a)" by (cases na)
  obtain sa oa where d: "dispatch now a s = Some (sa, oa)"
    using dispatch_total by blast
  obtain sb ob where r: "spin sa rest = Some (sb, ob)"
    using spin_total by blast
  from Cons.prems have e: "s' = sb" by (simp add: na d r)
  from Cons.IH[OF r] dispatch_slots(1)[OF d] e show ?case
    by (cases a) (simp_all add: na split: option.splits)
qed

lemma spin_gnss_slot:
  "spin s arrivals = Some (s', out) \<Longrightarrow>
   last_gnss_msg s' = (case latest_gnss arrivals of None \<Rightarrow> last_gnss_msg s | Some m \<Rightarrow> Some m)"
proof (induction arrivals arbitrary: s s' out)
  case Nil
  then show ?case by simp
next
  case (Cons na rest)
  obtain now a where na: "na = (now, a)" by (cases na)
  obtain sa oa where d: "dispatch now a s = Some (sa, oa)"
    using dispatch_total by blast
  obtain sb ob where r: "spin sa rest = Some (sb, ob)"
    using spin_total by blast
  from Cons.prems have e: "s' = sb" by (simp add: na d r)
  from Cons.IH[OF r] dispatch_slots(2)[OF d] e show ?case
    by (cases a) (simp_all add: na split: option.splits)
qed

lemma spin_ekf_slot:
  "spin s arrivals = Some (s', out) \<Longrightarrow>
   last_ekf_twist_msg s'
     = (case latest_ekf arrivals of None \<Rightarrow> last_ekf_twist_msg s | Some m \<Rightarrow> Some m)"
proof (induction arrivals arbitrary: s s' out)
  case Nil
  then show ?case by simp
next
  case (Cons na rest)
  obtain now a where na: "na = (now, a)" by (cases na)
  obtain sa oa where d: "dispatch now a s = Some (sa, oa)"
    using dispatch_total by blast
  obtain sb ob where r: "spin sa rest = Some (sb, ob)"
    using spin_total by blast
  from Cons.prems have e: "s' = sb" by (simp add: na d r)
  from Cons.IH[OF r] dispatch_slots(3)[OF d] e show ?case
    by (cases a) (simp_all add: na split: option.splits)
qed

lemma spin_filter_slot:
  "spin s arrivals = Some (s', out) \<Longrightarrow>
   last_filter_twist_msg s'
     = (case latest_filter arrivals of None \<Rightarrow> last_filter_twist_msg s | Some m \<Rightarrow> Some m)"
proof (induction arrivals arbitrary: s s' out)
  case Nil
  then show ?case by simp
next
  case (Cons na rest)
  obtain now a where na: "na = (now, a)" by (cases na)
  obtain sa oa where d: "dispatch now a s = Some (sa, oa)"
    using dispatch_total by blast
  obtain sb ob where r: "spin sa rest = Some (sb, ob)"
    using spin_total by blast
  from Cons.prems have e: "s' = sb" by (simp add: na d r)
  from Cons.IH[OF r] dispatch_slots(4)[OF d] e show ?case
    by (cases a) (simp_all add: na split: option.splits)
qed

lemma spin_weights:
  "spin s arrivals = Some (s', out) \<Longrightarrow>
   lidar_weight s' = lidar_weight s \<and> gnss_weight s' = gnss_weight s
   \<and> ekf_twist_weight s' = ekf_twist_weight s
   \<and> filter_twist_weight s' = filter_twist_weight s"
proof (induction arrivals arbitrary: s s' out)
  case Nil
  then show ?case by simp
next
  case (Cons na rest)
  obtain now a where na: "na = (now, a)" by (cases na)
  obtain sa oa where d: "dispatch now a s = Some (sa, oa)"
    using dispatch_total by blast
  obtain sb ob where r: "spin sa rest = Some (sb, ob)"
    using spin_total by blast
  from Cons.prems have e: "s' = sb" by (simp add: na d r)
  from Cons.IH[OF r] dispatch_slots(5-8)[OF d] e show ?case by simp
qed

text \<open>A topic on which something arrived has a latest message.\<close>

lemma latest_lidar_Some:
  "LidarPoseTopic \<in> topic_of ` set arrivals \<Longrightarrow> \<exists>m. latest_lidar arrivals = Some m"
proof (induction arrivals)
  case Nil
  then show ?case by simp
next
  case (Cons na rest)
  obtain now a where na: "na = (now, a)" by (cases na)
  from Cons show ?case by (cases a) (auto simp: na split: option.splits)
qed

lemma latest_gnss_Some:
  "GnssPoseTopic \<in> topic_of ` set arrivals \<Longrightarrow> \<exists>m. latest_gnss arrivals = Some m"
proof (induction arrivals)
  case Nil
  then show ?case by simp
next
  case (Cons na rest)
  obtain now a where na: "na = (now, a)" by (cases na)
  from Cons show ?case by (cases a) (auto simp: na split: option.splits)
qed

lemma latest_ekf_Some:
  "EkfTwistTopic \<in> topic_of ` set arrivals \<Longrightarrow> \<exists>m. latest_ekf arrivals = Some m"
proof (induction arrivals)
  case Nil
  then show ?case by simp
next
  case (Cons na rest)
  obtain now a where na: "na = (now, a)" by (cases na)
  from Cons show ?case by (cases a) (auto simp: na split: option.splits)
qed

lemma latest_filter_Some:
  "FilterTwistTopic \<in> topic_of ` set arrivals \<Longrightarrow> \<exists>m. latest_filter arrivals = Some m"
proof (induction arrivals)
  case Nil
  then show ?case by simp
next
  case (Cons na rest)
  obtain now a where na: "na = (now, a)" by (cases na)
  from Cons show ?case by (cases a) (auto simp: na split: option.splits)
qed

text \<open>Facts about the sample arrivals.\<close>

lemma later_sample_arithmetic:
  "half * DFinite False 5 + half * DFinite False 3 = DFinite False 4"
  using round_double_exact[of 5 "- 1" "5 / 2" False]
  by (simp add: double_arith pow2_def)

lemma both_arrived_facts:
  "LidarPoseTopic \<in> topic_of ` set both_arrived"
  "GnssPoseTopic \<in> topic_of ` set both_arrived"
  "EkfTwistTopic \<in> topic_of ` set both_arrived"
  "FilterTwistTopic \<in> topic_of ` set both_arrived"
  "latest_lidar both_arrived = Some lidar_sample"
  "latest_gnss both_arrived = Some gnss_sample"
  "latest_ekf both_arrived = Some ekf_sample"
  "latest_filter both_arrived = Some filter_sample"
  "length (filter is_pose_arrival stale_then_fresh) = 3"
  "length (filter is_twist_arrival stale_then_fresh) = 1"
  by (simp_all add: both_arrived_def stale_then_fresh_def is_pose_arrival_def
        is_twist_arrival_def)

lemma init_weights:
  "lidar_weight PoseFusionNode_init = half" "gnss_weight PoseFusionNode_init = half"
  "ekf_twist_weight PoseFusionNode_init = half"
  "filter_twist_weight PoseFusionNode_init = half"
  by (simp_all add: PoseFusionNode_init_def)

text \<open>
  Claim C5. Take any node and run it over a list \<open>pre\<close> of arrivals in which something
  arrived on the LiDAR topic and on the GNSS topic; the run returns, and the two slots
  then hold the messages \<open>l\<close> and \<open>g\<close> that arrived last on the two topics. A further
  arrival \<open>m\<close> on the LiDAR topic adds to what was sent exactly the pose fused from \<open>m\<close>
  and \<open>g\<close> and its transform, and leaves \<open>m\<close> in the slot; a further arrival \<open>m\<close> on the
  GNSS topic adds exactly the pose fused from \<open>l\<close> and \<open>m\<close> and its transform; and any
  further list \<open>post\<close> of arrivals adds as many fused poses, and as many transforms, as
  \<open>post\<close> has arrivals on the two pose topics. The same holds for the EKF and filter
  twist topics and the fused twist. No stamp is read, so the age of the cached message
  plays no part.
\<close>

theorem C5_every_arrival_fuses:
  "\<exists>s1 out1. spin s pre = Some (s1, out1)
     \<and> (LidarPoseTopic \<in> topic_of ` set pre \<and> GnssPoseTopic \<in> topic_of ` set pre \<longrightarrow>
         (\<exists>l g. latest_lidar pre = Some l \<and> latest_gnss pre = Some g
            \<and> last_lidar_msg s1 = Some l \<and> last_gnss_msg s1 = Some g
            \<and> spin s (pre @ [(now, LidarPose m)]) =
                Some (s1\<lparr>last_lidar_msg := Some m\<rparr>,
                  out1 @
                  [PublishFinalPose (fused_pose now (lidar_weight s) (gnss_weight s) m g),
                   SendTransform
                     (transformStamped (fused_pose now (lidar_weight s) (gnss_weight s) m g))])
            \<and> spin s (pre @ [(now, GnssPose m)]) =
                Some (s1\<lparr>last_gnss_msg := Some m\<rparr>,
                  out1 @
                  [PublishFinalPose (fused_pose now (lidar_weight s) (gnss_weight s) l m),
                   SendTransform
                     (transformStamped (fused_pose now (lidar_weight s) (gnss_weight s) l m))])
            \<and> (\<exists>s2 out2. spin s (pre @ post) = Some (s2, out1 @ out2)
                  \<and> length (filter is_final_pose out2) = length (filter is_pose_arrival post)
                  \<and> length (filter is_transform out2) = length (filter is_pose_arrival post))))
     \<and> (EkfTwistTopic \<in> topic_of ` set pre \<and> FilterTwistTopic \<in> topic_of ` set pre \<longrightarrow>
         (\<exists>e f. latest_ekf pre = Some e \<and> latest_filter pre = Some f
            \<and> last_ekf_twist_msg s1 = Some e \<and> last_filter_twist_msg s1 = Some f
            \<and> spin s (pre @ [(now, EkfTwist tm)]) =
                Some (s1\<lparr>last_ekf_twist_msg := Some tm\<rparr>,
                  out1 @
                  [PublishFusedTwist
                     (fused_twist now (ekf_twist_weight s) (filter_twist_weight s) tm f)])
            \<and> spin s (pre @ [(now, FilterTwist tm)]) =
                Some (s1\<lparr>last_filter_twist_msg := Some tm\<rparr>,
                  out1 @
                  [PublishFusedTwist
                     (fused_twist now (ekf_twist_weight s) (filter_twist_weight s) e tm)])
            \<and> (\<exists>s2 out2. spin s (pre @ post) = Some (s2, out1 @ out2)
                  \<and> length (filter is_fused_twist out2)
                      = length (filter is_twist_arrival post))))"
proof -
  obtain s1 out1 where r1: "spin s pre = Some (s1, out1)"
    using spin_total by blast
  obtain s2 out2 where r2: "spin s1 post = Some (s2, out2)"
    using spin_total by blast
  have r12: "spin s (pre @ post) = Some (s2, out1 @ out2)"
    using r1 r2 by (rule spin_append)
  note w = spin_weights[OF r1]
  have pose: "\<exists>l g. latest_lidar pre = Some l \<and> latest_gnss pre = Some g
      \<and> last_lidar_msg s1 = Some l \<and> last_gnss_msg s1 = Some g
      \<and> spin s (pre @ [(now, LidarPose m)]) =
          Some (s1\<lparr>last_lidar_msg := Some m\<rparr>,
            out1 @
            [PublishFinalPose (fused_pose now (lidar_weight s) (gnss_weight s) m g),
             SendTransform
               (transformStamped (fused_pose now (lidar_weight s) (gnss_weight s) m g))])
      \<and> spin s (pre @ [(now, GnssPose m)]) =
          Some (s1\<lparr>last_gnss_msg := Some m\<rparr>,
            out1 @
            [PublishFinalPose (fused_pose now (lidar_weight s) (gnss_weight s) l m),
             SendTransform
               (transformStamped (fused_pose now (lidar_weight s) (gnss_weight s) l m))])
      \<and> (\<exists>s2 out2. spin s (pre @ post) = Some (s2, out1 @ out2)
            \<and> length (filter is_final_pose out2) = length (filter is_pose_arrival post)
            \<and> length (filter is_transform out2) = length (filter is_pose_arrival post))"
    if both: "LidarPoseTopic \<in> topic_of ` set pre" "GnssPoseTopic \<in> topic_of ` set pre"
  proof -
    obtain l where l: "latest_lidar pre = Some l" using latest_lidar_Some[OF both(1)] by blast
    obtain g where g: "latest_gnss pre = Some g" using latest_gnss_Some[OF both(2)] by blast
    have sl: "last_lidar_msg s1 = Some l" using spin_lidar_slot[OF r1] l by simp
    have sg: "last_gnss_msg s1 = Some g" using spin_gnss_slot[OF r1] g by simp
    have a1: "spin s1 [(now, LidarPose m)] =
        Some (s1\<lparr>last_lidar_msg := Some m\<rparr>,
          [PublishFinalPose (fused_pose now (lidar_weight s) (gnss_weight s) m g),
           SendTransform
             (transformStamped (fused_pose now (lidar_weight s) (gnss_weight s) m g))])"
      by (simp add: lidarPoseCallback_cases sg w)
    have a2: "spin s1 [(now, GnssPose m)] =
        Some (s1\<lparr>last_gnss_msg := Some m\<rparr>,
          [PublishFinalPose (fused_pose now (lidar_weight s) (gnss_weight s) l m),
           SendTransform
             (transformStamped (fused_pose now (lidar_weight s) (gnss_weight s) l m))])"
      by (simp add: gnssPoseCallback_cases sl w)
    have c: "length (filter is_final_pose out2) = length (filter is_pose_arrival post)
        \<and> length (filter is_transform out2) = length (filter is_pose_arrival post)"
      using spin_pose_ready[OF _ _ r2] sl sg by simp
    show ?thesis
      using l g sl sg spin_append[OF r1 a1] spin_append[OF r1 a2] r12 c by blast
  qed
  have twist: "\<exists>e f. latest_ekf pre = Some e \<and> latest_filter pre = Some f
      \<and> last_ekf_twist_msg s1 = Some e \<and> last_filter_twist_msg s1 = Some f
      \<and> spin s (pre @ [(now, EkfTwist tm)]) =
          Some (s1\<lparr>last_ekf_twist_msg := Some tm\<rparr>,
            out1 @
            [PublishFusedTwist
               (fused_twist now (ekf_twist_weight s) (filter_twist_weight s) tm f)])
      \<and> spin s (pre @ [(now, FilterTwist tm)]) =
          Some (s1\<lparr>last_filter_twist_msg := Some tm\<rparr>,
            out1 @
            [PublishFusedTwist
               (fused_twist now (ekf_twist_weight s) (filter_twist_weight s) e tm)])
      \<and> (\<exists>s2 out2. spin s (pre @ post) = Some (s2, out1 @ out2)
            \<and> length (filter is_fused_twist out2) = length (filter is_twist_arrival post))"
    if both: "EkfTwistTopic \<in> topic_of ` set pre" "FilterTwistTopic \<in> topic_of ` set pre"
  proof -
    obtain e where e: "latest_ekf pre = Some e" using latest_ekf_Some[OF both(1)] by blast
    obtain f where f: "latest_filter pre = Some f" using latest_filter_Some[OF both(2)] by blast
    have se: "last_ekf_twist_msg s1 = Some e" using spin_ekf_slot[OF r1] e by simp
    have sf: "last_filter_twist_msg s1 = Some f" using spin_filter_slot[OF r1] f by simp
    have a1: "spin s1 [(now, EkfTwist tm)] =
        Some (s1\<lparr>last_ekf_twist_msg := Some tm\<rparr>,
          [PublishFusedTwist
             (fused_twist now (ekf_twist_weight s) (filter_twist_weight s) tm f)])"
      by (simp add: ekfTwistCallback_cases sf w)
    have a2: "spin s1 [(now, FilterTwist tm)] =
        Some (s1\<lparr>last_filter_twist_msg := Some tm\<rparr>,
          [PublishFusedTwist
             (fused_twist now (ekf_twist_weight s) (filter_twist_weight s) e tm)])"
      by (simp add: filterTwistCallback_cases se w)
    have c: "length (filter is_fused_twist out2) = length (filter is_twist_arrival post)"
      using spin_twist_ready[OF _ _ r2] se sf by simp
    show ?thesis
      using e f se sf spin_append[OF r1 a1] spin_append[OF r1 a2] r12 c by blast
  qed
  from r1 pose twist show ?thesis by blast
qed

theorem C5_every_arrival_fuses_witness:
  "\<exists>s1 out1. spin PoseFusionNode_init both_arrived = Some (s1, out1)
     \<and> out1 =
         [PublishFinalPose (fused_pose (at_second 3) half half lidar_sample gnss_sample),
          SendTransform
            (transformStamped (fused_pose (at_second 3) half half lidar_sample gnss_sample)),
          PublishFusedTwist (fused_twist (at_second 4) half half ekf_sample filter_sample)]
     \<and> last_lidar_msg s1 = Some lidar_sample \<and> last_gnss_msg s1 = Some gnss_sample
     \<and> last_ekf_twist_msg s1 = Some ekf_sample \<and> last_filter_twist_msg s1 = Some filter_sample
     \<and> spin PoseFusionNode_init (both_arrived @ [(at_second 1000, LidarPose later_lidar_sample)])
         = Some (s1\<lparr>last_lidar_msg := Some later_lidar_sample\<rparr>,
             out1 @
             [PublishFinalPose
                (fused_pose (at_second 1000) half half later_lidar_sample gnss_sample),
              SendTransform
                (transformStamped
                   (fused_pose (at_second 1000) half half later_lidar_sample gnss_sample))])
     \<and> position_of (fused_pose (at_second 1000) half half later_lidar_sample gnss_sample)
         = \<lparr> point_x = DFinite False 4, point_y = 0, point_z = 0 \<rparr>
     \<and> spin PoseFusionNode_init (both_arrived @ [(at_second 1000, EkfTwist later_ekf_sample)])
         = Some (s1\<lparr>last_ekf_twist_msg := Some later_ekf_sample\<rparr>,
             out1 @
             [PublishFusedTwist
                (fused_twist (at_second 1000) half half later_ekf_sample filter_sample)])
     \<and> vec_z (angular_of
           (fused_twist (at_second 1000) half half later_ekf_sample filter_sample))
         = DFinite False 4
     \<and> (\<exists>s2 out2. spin PoseFusionNode_init (both_arrived @ stale_then_fresh)
           = Some (s2, out1 @ out2)
         \<and> length (filter is_final_pose out2) = 3 \<and> length (filter is_transform out2) = 3
         \<and> length (filter is_fused_twist out2) = 1)"
proof -
  from C5_every_arrival_fuses[where s = PoseFusionNode_init and pre = both_arrived
      and now = "at_second 1000" and m = later_lidar_sample and tm = later_ekf_sample
      and post = stale_then_fresh]
  obtain s1 out1 where r1: "spin PoseFusionNode_init both_arrived = Some (s1, out1)"
    and P: "LidarPoseTopic \<in> topic_of ` set both_arrived
        \<and> GnssPoseTopic \<in> topic_of ` set both_arrived \<longrightarrow>
      (\<exists>l g. latest_lidar both_arrived = Some l \<and> latest_gnss both_arrived = Some g
         \<and> last_lidar_msg s1 = Some l \<and> last_gnss_msg s1 = Some g
         \<and> spin PoseFusionNode_init (both_arrived @ [(at_second 1000, LidarPose later_lidar_sample)])
             = Some (s1\<lparr>last_lidar_msg := Some later_lidar_sample\<rparr>,
                 out1 @
                 [PublishFinalPose
                    (fused_pose (at_second 1000) (lidar_weight PoseFusionNode_init)
                       (gnss_weight PoseFusionNode_init) later_lidar_sample g),
                  SendTransform
                    (transformStamped
                       (fused_pose (at_second 1000) (lidar_weight PoseFusionNode_init)
                          (gnss_weight PoseFusionNode_init) later_lidar_sample g))])
         \<and> spin PoseFusionNode_init (both_arrived @ [(at_second 1000, GnssPose later_lidar_sample)])
             = Some (s1\<lparr>last_gnss_msg := Some later_lidar_sample\<rparr>,
                 out1 @
                 [PublishFinalPose
                    (fused_pose (at_second 1000) (lidar_weight PoseFusionNode_init)
                       (gnss_weight PoseFusionNode_init) l later_lidar_sample),
                  SendTransform
                    (transformStamped
                       (fused_pose (at_second 1000) (lidar_weight PoseFusionNode_init)
                          (gnss_weight PoseFusionNode_init) l later_lidar_sample))])
         \<and> (\<exists>s2 out2. spin PoseFusionNode_init (both_arrived @ stale_then_fresh)
               = Some (s2, out1 @ out2)
             \<and> length (filter is_final_pose out2)
                 = length (filter is_pose_arrival stale_then_fresh)
             \<and> length (filter is_transform out2)
                 = length (filter is_pose_arrival stale_then_fresh)))"
    and T: "EkfTwistTopic \<in> topic_of ` set both_arrived
        \<and> FilterTwistTopic \<in> topic_of ` set both_arrived \<longrightarrow>
      (\<exists>e f. latest_ekf both_arrived = Some e \<and> latest_filter both_arrived = Some f
         \<and> last_ekf_twist_msg s1 = Some e \<and> last_filter_twist_msg s1 = Some f
         \<and> spin PoseFusionNode_init (both_arrived @ [(at_second 1000, EkfTwist later_ekf_sample)])
             = Some (s1\<lparr>last_ekf_twist_msg := Some later_ekf_sample\<rparr>,
                 out1 @
                 [PublishFusedTwist
                    (fused_twist (at_second 1000) (ekf_twist_weight PoseFusionNode_init)
                       (filter_twist_weight PoseFusionNode_init) later_ekf_sample f)])
         \<and> spin PoseFusionNode_init (both_arrived @ [(at_second 1000, FilterTwist later_ekf_sample)])
             = Some (s1\<lparr>last_filter_twist_msg := Some later_ekf_sample\<rparr>,
                 out1 @
                 [PublishFusedTwist
                    (fused_twist (at_second 1000) (ekf_twist_weight PoseFusionNode_init)
                       (filter_twist_weight PoseFusionNode_init) e later_ekf_sample)])
         \<and> (\<exists>s2 out2. spin PoseFusionNode_init (both_arrived @ stale_then_fresh)
               = Some (s2, out1 @ out2)
             \<and> length (filter is_fused_twist out2)
                 = length (filter is_twist_arrival stale_then_fresh)))"
    by blast
  from P both_arrived_facts(1,2) obtain l g where pg:
    "latest_lidar both_arrived = Some l" "latest_gnss both_arrived = Some g"
    "last_lidar_msg s1 = Some l" "last_gnss_msg s1 = Some g"
    "spin PoseFusionNode_init (both_arrived @ [(at_second 1000, LidarPose later_lidar_sample)])
       = Some (s1\<lparr>last_lidar_msg := Some later_lidar_sample\<rparr>,
           out1 @
           [PublishFinalPose
              (fused_pose (at_second 1000) (lidar_weight PoseFusionNode_init)
                 (gnss_weight PoseFusionNode_init) later_lidar_sample g),
            SendTransform
              (transformStamped
                 (fused_pose (at_second 1000) (lidar_weight PoseFusionNode_init)
                    (gnss_weight PoseFusionNode_init) later_lidar_sample g))])"
    and "\<exists>s2 out2. spin PoseFusionNode_init (both_arrived @ stale_then_fresh)
               = Some (s2, out1 @ out2)
             \<and> length (filter is_final_pose out2)
                 = length (filter is_pose_arrival stale_then_fresh)
             \<and> length (filter is_transform out2)
                 = length (filter is_pose_arrival stale_then_fresh)"
    by blast
  then obtain s2 out2 where c2:
    "spin PoseFusionNode_init (both_arrived @ stale_then_fresh) = Some (s2, out1 @ out2)"
    "length (filter is_final_pose out2) = 3" "length (filter is_transform out2) = 3"
    by (auto simp: both_arrived_facts)
  from T both_arrived_facts(3,4) obtain e f where tf:
    "latest_ekf both_arrived = Some e" "latest_filter both_arrived = Some f"
    "last_ekf_twist_msg s1 = Some e" "last_filter_twist_msg s1 = Some f"
    "spin PoseFusionNode_init (both_arrived @ [(at_second 1000, EkfTwist later_ekf_sample)])
       = Some (s1\<lparr>last_ekf_twist_msg := Some later_ekf_sample\<rparr>,
           out1 @
           [PublishFusedTwist
              (fused_twist (at_second 1000) (ekf_twist_weight PoseFusionNode_init)
                 (filter_twist_weight PoseFusionNode_init) later_ekf_sample f)])"
    and "\<exists>s2 out2. spin PoseFusionNode_init (both_arrived @ stale_then_fresh)
               = Some (s2, out1 @ out2)
             \<and> length (filter is_fused_twist out2)
                 = length (filter is_twist_arrival stale_then_fresh)"
    by blast
  then obtain s3 out3 where c3:
    "spin PoseFusionNode_init (both_arrived @ stale_then_fresh) = Some (s3, out1 @ out3)"
    "length (filter is_fused_twist out3) = 1"
    by (auto simp: both_arrived_facts)
  from c2(1) c3(1) have "out3 = out2" by simp
  with c3(2) have c4: "length (filter is_fused_twist out2) = 1" by simp
  have lg: "l = lidar_sample" "g = gnss_sample" "e = ekf_sample" "f = filter_sample"
    using pg(1,2) tf(1,2) by (simp_all add: both_arrived_facts)
  have "spin PoseFusionNode_init both_arrived =
      Some (PoseFusionNode_init\<lparr> last_lidar_msg := Some lidar_sample,
              last_ekf_twist_msg := Some ekf_sample, last_gnss_msg := Some gnss_sample,
              last_filter_twist_msg := Some filter_sample \<rparr>,
        [PublishFinalPose (fused_pose (at_second 3) half half lidar_sample gnss_sample),
         SendTransform
           (transformStamped (fused_pose (at_second 3) half half lidar_sample gnss_sample)),
         PublishFusedTwist (fused_twist (at_second 4) half half ekf_sample filter_sample)])"
    by (simp add: both_arrived_def callback_cases PoseFusionNode_init_def)
  with r1 have o1: "out1 =
        [PublishFinalPose (fused_pose (at_second 3) half half lidar_sample gnss_sample),
         SendTransform
           (transformStamped (fused_pose (at_second 3) half half lidar_sample gnss_sample)),
         PublishFusedTwist (fused_twist (at_second 4) half half ekf_sample filter_sample)]"
    by simp
  have pos: "position_of (fused_pose (at_second 1000) half half later_lidar_sample gnss_sample)
      = \<lparr> point_x = DFinite False 4, point_y = 0, point_z = 0 \<rparr>"
    by (simp add: fused_pose_position later_lidar_sample_def gnss_sample_def sample_fields
          sample_arithmetic later_sample_arithmetic)
  have ang: "vec_z (angular_of
        (fused_twist (at_second 1000) half half later_ekf_sample filter_sample))
      = DFinite False 4"
    by (simp add: fused_twist_twist later_ekf_sample_def filter_sample_def sample_fields
          later_sample_arithmetic)
  show ?thesis
    apply (rule exI[of _ s1], rule exI[of _ out1])
    using r1 o1 pg(3,4,5) tf(3,4,5) pos ang c2 c4
    apply (simp only: lg init_weights)
    apply (intro conjI; (assumption | rule refl)?)
    apply (rule exI[of _ s2], rule exI[of _ out2])
    apply simp
    done
qed

section \<open>Weights \<open>(1, 0)\<close> and \<open>(0, 1)\<close>\<close>

lemma sample_doubles:
  "is_double 1" "is_double (DFinite False 2)" "is_double (DFinite False 3)"
  "is_double (DFinite False 4)"
  "is_finite 1" "is_finite (DFinite False 2)" "is_finite (DFinite False 3)"
  "is_finite (DFinite False 4)"
  "\<not> is_zero 1" "\<not> is_zero (DFinite False 2)" "\<not> is_zero (DFinite False 3)"
  "\<not> is_zero (DFinite False 4)"
  by (simp_all add: is_double_def is_finite_def is_zero_def one_double_def round_double_samples)

lemma boundary_node_fields:
  "last_lidar_msg primary_only_node = Some lidar_sample"
  "last_gnss_msg primary_only_node = Some gnss_sample"
  "last_ekf_twist_msg primary_only_node = Some ekf_sample"
  "last_filter_twist_msg primary_only_node = Some filter_sample"
  "lidar_weight primary_only_node = 1" "gnss_weight primary_only_node = 0"
  "ekf_twist_weight primary_only_node = 1" "filter_twist_weight primary_only_node = 0"
  "last_lidar_msg secondary_only_node = Some lidar_sample"
  "last_gnss_msg secondary_only_node = Some gnss_sample"
  "last_ekf_twist_msg secondary_only_node = Some ekf_sample"
  "last_filter_twist_msg secondary_only_node = Some filter_sample"
  "lidar_weight secondary_only_node = 0" "gnss_weight secondary_only_node = 1"
  "ekf_twist_weight secondary_only_node = 0" "filter_twist_weight secondary_only_node = 1"
  by (simp_all add: primary_only_node_def secondary_only_node_def ready_node_fields)

lemma sample_values:
  "point_x (position_of lidar_sample) = 1"
  "point_x (position_of gnss_sample) = DFinite False 3"
  "orientation_of lidar_sample = no_rotation"
  "covariance_of lidar_sample ! 35 = DFinite False 2"
  "covariance_of gnss_sample ! 35 = DFinite False 4"
  "vec_z (angular_of ekf_sample) = 1"
  "vec_z (angular_of filter_sample) = DFinite False 3"
  "twist_covariance_of ekf_sample ! 7 = DFinite False 2"
  "twist_covariance_of filter_sample ! 7 = DFinite False 4"
  by (simp_all add: lidar_sample_def gnss_sample_def ekf_sample_def filter_sample_def
        sample_fields)

lemma same_number_nonzero: "same_number a b \<Longrightarrow> \<not> is_zero b \<Longrightarrow> a = b"
  by (auto simp: same_number_def)

text \<open>
  The claim C7 as stated fails. With weights \<open>(0, 1)\<close>, a LiDAR message at
  \<open>(+\<infinity>, 5, 0)\<close> with no rotation and a GNSS message at \<open>(3, -0, 0)\<close> with a half turn,
  the published pose has the LiDAR orientation, not the GNSS one; its x is NaN
  (\<open>0 * \<infinity>\<close>), not 3; and its y is \<open>+0\<close>, not the \<open>-0\<close> of the GNSS message.
\<close>

theorem C7_counterexample:
  "fusePoses (at_second 1000)
      (PoseFusionNode_init\<lparr> last_lidar_msg := Some far_lidar_sample,
         last_gnss_msg := Some level_gnss_sample, lidar_weight := 0, gnss_weight := 1 \<rparr>)
     = Some [PublishFinalPose (fused_pose (at_second 1000) 0 1 far_lidar_sample level_gnss_sample),
             SendTransform (transformStamped
               (fused_pose (at_second 1000) 0 1 far_lidar_sample level_gnss_sample))]
   \<and> orientation_of (fused_pose (at_second 1000) 0 1 far_lidar_sample level_gnss_sample)
       = no_rotation
   \<and> orientation_of level_gnss_sample = half_turn \<and> no_rotation \<noteq> half_turn
   \<and> point_x (position_of (fused_pose (at_second 1000) 0 1 far_lidar_sample level_gnss_sample))
       = DNaN
   \<and> point_x (position_of level_gnss_sample) = DFinite False 3
   \<and> point_y (position_of (fused_pose (at_second 1000) 0 1 far_lidar_sample level_gnss_sample))
       = DFinite False 0
   \<and> point_y (position_of level_gnss_sample) = DFinite True 0"
  by (simp add: fusePoses_ready fused_pose_position fused_pose_orientation
        far_lidar_sample_def level_gnss_sample_def sample_fields
        no_rotation_def half_turn_def double_arith)

text \<open>
  Claim C7, amended. With weights \<open>(1, 0)\<close> the published pose has the LiDAR
  orientation, and each position component and covariance entry for which the GNSS
  message holds a finite value is the same number as that of the LiDAR message (the
  same double, except that a zero may change sign); the published twist's angular z and
  covariance entries relate in the same way to the EKF message wherever the filter
  message holds a finite value. With weights \<open>(0, 1)\<close> each position component and
  covariance entry for which the LiDAR message holds a finite value is the same number
  as that of the GNSS message, and likewise the twist against the filter message, but
  the orientation is still that of the LiDAR message.
\<close>

theorem C7_boundary_weights:
  "(last_lidar_msg s = Some A \<and> last_gnss_msg s = Some B
      \<and> lidar_weight s = 1 \<and> gnss_weight s = 0 \<longrightarrow>
      (\<exists>p t. fusePoses now s = Some [PublishFinalPose p, SendTransform t]
         \<and> orientation_of p = orientation_of A
         \<and> (is_double (point_x (position_of A)) \<and> is_finite (point_x (position_of B))
              \<longrightarrow> same_number (point_x (position_of p)) (point_x (position_of A)))
         \<and> (is_double (point_y (position_of A)) \<and> is_finite (point_y (position_of B))
              \<longrightarrow> same_number (point_y (position_of p)) (point_y (position_of A)))
         \<and> (is_double (point_z (position_of A)) \<and> is_finite (point_z (position_of B))
              \<longrightarrow> same_number (point_z (position_of p)) (point_z (position_of A)))
         \<and> (\<forall>i<36. is_double (covariance_of A ! i) \<and> is_finite (covariance_of B ! i)
              \<longrightarrow> same_number (covariance_of p ! i) (covariance_of A ! i))))
   \<and> (last_lidar_msg s = Some A \<and> last_gnss_msg s = Some B
      \<and> lidar_weight s = 0 \<and> gnss_weight s = 1 \<longrightarrow>
      (\<exists>p t. fusePoses now s = Some [PublishFinalPose p, SendTransform t]
         \<and> orientation_of p = orientation_of A
         \<and> (is_finite (point_x (position_of A)) \<and> is_double (point_x (position_of B))
              \<longrightarrow> same_number (point_x (position_of p)) (point_x (position_of B)))
         \<and> (is_finite (point_y (position_of A)) \<and> is_double (point_y (position_of B))
              \<longrightarrow> same_number (point_y (position_of p)) (point_y (position_of B)))
         \<and> (is_finite (point_z (position_of A)) \<and> is_double (point_z (position_of B))
              \<longrightarrow> same_number (point_z (position_of p)) (point_z (position_of B)))
         \<and> (\<forall>i<36. is_finite (covariance_of A ! i) \<and> is_double (covariance_of B ! i)
              \<longrightarrow> same_number (covariance_of p ! i) (covariance_of B ! i))))
   \<and> (last_ekf_twist_msg s = Some E \<and> last_filter_twist_msg s = Some F
      \<and> ekf_twist_weight s = 1 \<and> filter_twist_weight s = 0 \<longrightarrow>
      (\<exists>tw. fuseTwists now s = Some [PublishFusedTwist tw]
         \<and> (is_double (vec_z (angular_of E)) \<and> is_finite (vec_z (angular_of F))
              \<longrightarrow> same_number (vec_z (angular_of tw)) (vec_z (angular_of E)))
         \<and> (\<forall>i<36. is_double (twist_covariance_of E ! i) \<and> is_finite (twist_covariance_of F ! i)
              \<longrightarrow> same_number (twist_covariance_of tw ! i) (twist_covariance_of E ! i))))
   \<and> (last_ekf_twist_msg s = Some E \<and> last_filter_twist_msg s = Some F
      \<and> ekf_twist_weight s = 0 \<and> filter_twist_weight s = 1 \<longrightarrow>
      (\<exists>tw. fuseTwists now s = Some [PublishFusedTwist tw]
         \<and> (is_finite (vec_z (angular_of E)) \<and> is_double (vec_z (angular_of F))
              \<longrightarrow> same_number (vec_z (angular_of tw)) (vec_z (angular_of F)))
         \<and> (\<forall>i<36. is_finite (twist_covariance_of E ! i) \<and> is_double (twist_covariance_of F ! i)
              \<longrightarrow> same_number (twist_covariance_of tw ! i) (twist_covariance_of F ! i))))"
  by (simp add: fusePoses_ready fuseTwists_ready fused_pose_position fused_pose_orientation
        fused_pose_covariance fused_twist_covariance fused_twist_twist
        covariance_loop_entry blend_one_zero blend_zero_one)

theorem C7_boundary_weights_witness:
  "(\<exists>p t. fusePoses (at_second 1000) primary_only_node
        = Some [PublishFinalPose p, SendTransform t]
      \<and> orientation_of p = no_rotation \<and> point_x (position_of p) = 1
      \<and> covariance_of p ! 35 = DFinite False 2)
   \<and> (\<exists>p t. fusePoses (at_second 1000) secondary_only_node
        = Some [PublishFinalPose p, SendTransform t]
      \<and> orientation_of p = no_rotation \<and> point_x (position_of p) = DFinite False 3
      \<and> covariance_of p ! 35 = DFinite False 4)
   \<and> (\<exists>tw. fuseTwists (at_second 1000) primary_only_node = Some [PublishFusedTwist tw]
      \<and> vec_z (angular_of tw) = 1 \<and> twist_covariance_of tw ! 7 = DFinite False 2)
   \<and> (\<exists>tw. fuseTwists (at_second 1000) secondary_only_node = Some [PublishFusedTwist tw]
      \<and> vec_z (angular_of tw) = DFinite False 3
      \<and> twist_covariance_of tw ! 7 = DFinite False 4)"
proof -
  note P = C7_boundary_weights[of primary_only_node lidar_sample gnss_sample
      "at_second 1000" ekf_sample filter_sample]
  note S = C7_boundary_weights[of secondary_only_node lidar_sample gnss_sample
      "at_second 1000" ekf_sample filter_sample]
  note P1 = P[THEN conjunct1, rule_format]
  note S2 = S[THEN conjunct2, THEN conjunct1, rule_format]
  note P3 = P[THEN conjunct2, THEN conjunct2, THEN conjunct1, rule_format]
  note S4 = S[THEN conjunct2, THEN conjunct2, THEN conjunct2, rule_format]
  have n: "(35::nat) < 36" "(7::nat) < 36" by simp_all
  from P1 obtain p t where p:
    "fusePoses (at_second 1000) primary_only_node = Some [PublishFinalPose p, SendTransform t]"
    "orientation_of p = orientation_of lidar_sample"
    "is_double (point_x (position_of lidar_sample)) \<and> is_finite (point_x (position_of gnss_sample))
       \<longrightarrow> same_number (point_x (position_of p)) (point_x (position_of lidar_sample))"
    "\<forall>i<36. is_double (covariance_of lidar_sample ! i) \<and> is_finite (covariance_of gnss_sample ! i)
       \<longrightarrow> same_number (covariance_of p ! i) (covariance_of lidar_sample ! i)"
    using boundary_node_fields(1-4) boundary_node_fields(5-8) by blast
  from S2 obtain q u where q:
    "fusePoses (at_second 1000) secondary_only_node = Some [PublishFinalPose q, SendTransform u]"
    "orientation_of q = orientation_of lidar_sample"
    "is_finite (point_x (position_of lidar_sample)) \<and> is_double (point_x (position_of gnss_sample))
       \<longrightarrow> same_number (point_x (position_of q)) (point_x (position_of gnss_sample))"
    "\<forall>i<36. is_finite (covariance_of lidar_sample ! i) \<and> is_double (covariance_of gnss_sample ! i)
       \<longrightarrow> same_number (covariance_of q ! i) (covariance_of gnss_sample ! i)"
    using boundary_node_fields(9-12) boundary_node_fields(13-16) by blast
  from P3 obtain tw where tw:
    "fuseTwists (at_second 1000) primary_only_node = Some [PublishFusedTwist tw]"
    "is_double (vec_z (angular_of ekf_sample)) \<and> is_finite (vec_z (angular_of filter_sample))
       \<longrightarrow> same_number (vec_z (angular_of tw)) (vec_z (angular_of ekf_sample))"
    "\<forall>i<36. is_double (twist_covariance_of ekf_sample ! i)
         \<and> is_finite (twist_covariance_of filter_sample ! i)
       \<longrightarrow> same_number (twist_covariance_of tw ! i) (twist_covariance_of ekf_sample ! i)"
    using boundary_node_fields(1-4) boundary_node_fields(5-8) by blast
  from S4 obtain tv where tv:
    "fuseTwists (at_second 1000) secondary_only_node = Some [PublishFusedTwist tv]"
    "is_finite (vec_z (angular_of ekf_sample)) \<and> is_double (vec_z (angular_of filter_sample))
       \<longrightarrow> same_number (vec_z (angular_of tv)) (vec_z (angular_of filter_sample))"
    "\<forall>i<36. is_finite (twist_covariance_of ekf_sample ! i)
         \<and> is_double (twist_covariance_of filter_sample ! i)
       \<longrightarrow> same_number (twist_covariance_of tv ! i) (twist_covariance_of filter_sample ! i)"
    using boundary_node_fields(9-12) boundary_node_fields(13-16) by blast
  have "point_x (position_of p) = 1"
    using p(3) by (simp add: sample_values sample_doubles same_number_nonzero)
  moreover have "covariance_of p ! 35 = DFinite False 2"
    using p(4)[rule_format, OF n(1)]
    by (simp add: sample_values sample_doubles same_number_nonzero)
  moreover have "point_x (position_of q) = DFinite False 3"
    using q(3) by (simp add: sample_values sample_doubles same_number_nonzero)
  moreover have "covariance_of q ! 35 = DFinite False 4"
    using q(4)[rule_format, OF n(1)]
    by (simp add: sample_values sample_doubles same_number_nonzero)
  moreover have "vec_z (angular_of tw) = 1"
    using tw(2) by (simp add: sample_values sample_doubles same_number_nonzero)
  moreover have "twist_covariance_of tw ! 7 = DFinite False 2"
    using tw(3)[rule_format, OF n(2)]
    by (simp add: sample_values sample_doubles same_number_nonzero)
  moreover have "vec_z (angular_of tv) = DFinite False 3"
    using tv(2) by (simp add: sample_values sample_doubles same_number_nonzero)
  moreover have "twist_covariance_of tv ! 7 = DFinite False 4"
    using tv(3)[rule_format, OF n(2)]
    by (simp add: sample_values sample_doubles same_number_nonzero)
  ultimately show ?thesis
    using p(1,2) q(1,2) tw(1) tv(1) by (simp add: sample_values)
qed

end
